theory Spec2Isabelle
  imports Main "HOL-Library.Multiset" "HOL-Library.AList"
begin

section \<open>JavaScript values used by the plugin\<close>

text \<open>
  Strings are character lists, one character for each code unit of the JavaScript
  string. An array read \<open>a[i]\<close> yields \<open>undefined\<close> outside the array, so a value that
  may be \<open>undefined\<close> is a \<open>string option\<close> with \<open>None\<close> for \<open>undefined\<close>. A thrown
  exception is the left summand of the result type.
\<close>

datatype error = Error string | TypeError

text \<open>\<open>a[i]\<close> for a non-negative index.\<close>

fun index :: "'a list \<Rightarrow> nat \<Rightarrow> 'a option" where
  "index [] i = None"
| "index (x # xs) 0 = Some x"
| "index (x # xs) (Suc i) = index xs i"

text \<open>
  \<open>a[i]\<close> for an integer index: an array has no element at a negative index, the read
  gives \<open>undefined\<close>.
\<close>

definition index_int :: "'a list \<Rightarrow> int \<Rightarrow> 'a option" where
  "index_int a i = (if i < 0 then None else index a (nat i))"

text \<open>A value interpolated into a template literal: \<open>undefined\<close> prints as its name.\<close>

definition interpolate :: "string option \<Rightarrow> string" where
  "interpolate v = (case v of None \<Rightarrow> ''undefined'' | Some s \<Rightarrow> s)"

text \<open>
  \<open>str.split(sep)\<close> for a one-character separator: the fields between the separators,
  one more than there are separators, so never the empty array.
\<close>

fun js_split :: "char \<Rightarrow> string \<Rightarrow> string list" where
  "js_split sep [] = [[]]"
| "js_split sep (c # cs) =
     (if c = sep then [] # js_split sep cs
      else (case js_split sep cs of
              [] \<Rightarrow> [[c]]
            | w # ws \<Rightarrow> (c # w) # ws))"

text \<open>
  \<open>str.replace(pattern, replacement)\<close> for a string pattern: the first occurrence of
  the pattern is replaced by the replacement, in which \<open>$$\<close> stands for a dollar sign,
  \<open>$&\<close> for the matched text, \<open>$`\<close> for the text before the match and \<open>$'\<close> for
  the text after it; a string pattern has no captures, so every other \<open>$\<close> is kept.
\<close>

fun is_prefix :: "string \<Rightarrow> string \<Rightarrow> bool" where
  "is_prefix [] s = True"
| "is_prefix (p # ps) [] = False"
| "is_prefix (p # ps) (c # cs) = (p = c \<and> is_prefix ps cs)"

fun getSubstitution :: "string \<Rightarrow> string \<Rightarrow> string \<Rightarrow> string \<Rightarrow> string" where
  "getSubstitution matched preceding following [] = []"
| "getSubstitution matched preceding following [c] = [c]"
| "getSubstitution matched preceding following (c # d # r) =
     (if c = CHR ''$'' \<and> d = CHR ''$''
      then CHR ''$'' # getSubstitution matched preceding following r
      else if c = CHR ''$'' \<and> d = CHR ''&''
      then matched @ getSubstitution matched preceding following r
      else if c = CHR ''$'' \<and> d = CHR 0x60
      then preceding @ getSubstitution matched preceding following r
      else if c = CHR ''$'' \<and> d = CHR 0x27
      then following @ getSubstitution matched preceding following r
      else c # getSubstitution matched preceding following (d # r))"

fun replaceFrom :: "string \<Rightarrow> string \<Rightarrow> string \<Rightarrow> string \<Rightarrow> string" where
  "replaceFrom pat rep preceding [] =
     (if pat = [] then preceding @ getSubstitution [] preceding [] rep else preceding)"
| "replaceFrom pat rep preceding (c # cs) =
     (if is_prefix pat (c # cs)
      then preceding @ getSubstitution pat preceding (drop (length pat) (c # cs)) rep
                     @ drop (length pat) (c # cs)
      else replaceFrom pat rep (preceding @ [c]) cs)"

definition replace :: "string \<Rightarrow> string \<Rightarrow> string \<Rightarrow> string" where
  "replace pat rep str = replaceFrom pat rep [] str"

text \<open>
  \<open>ch.toUpperCase()\<close> belongs to the JavaScript engine and follows the Unicode case
  mapping, which may give more than one character. The functions that call it take it
  as the parameter \<open>toUpperCase\<close>, from a character to a string, and every statement
  about them holds for every such function.
\<close>

section \<open>Export-key codec (src/lib/utils.ts)\<close>

record 'a KeyFields =
  stackName :: 'a
  name :: 'a
  type :: 'a

record 'a ExportNameFields = "'a KeyFields" +
  prefix :: 'a
  resource :: 'a

text \<open>
  \<open>pascalCase\<close>: \<open>str[0]\<close> is \<open>undefined\<close> for the empty string and calling
  \<open>toUpperCase\<close> on it throws a TypeError before \<open>replace\<close> runs.
\<close>

definition pascalCase :: "(char \<Rightarrow> string) \<Rightarrow> string \<Rightarrow> error + string" where
  "pascalCase toUpperCase str =
     (case index str 0 of
        None \<Rightarrow> Inl TypeError
      | Some firstChar \<Rightarrow> Inr (replace [firstChar] (toUpperCase firstChar) str))"

definition splitExportName :: "string \<Rightarrow> string option ExportNameFields" where
  "splitExportName exportName =
     (let exportNameArray = js_split CHR '':'' exportName in
      \<lparr> stackName = index exportNameArray 1,
        name = index exportNameArray 2,
        type = index exportNameArray 3,
        prefix = index exportNameArray 0,
        resource = index exportNameArray 4 \<rparr>)"

definition splitResourceExportKey :: "string \<Rightarrow> error + string KeyFields" where
  "splitResourceExportKey key =
     (let exportKeyArray = js_split CHR '':'' key in
      if length exportKeyArray \<noteq> 3 then Inl (Error (''Incorrect resource export key: '' @ key))
      else Inr \<lparr> stackName = exportKeyArray ! 0,
                 name = exportKeyArray ! 1,
                 type = exportKeyArray ! 2 \<rparr>)"

text \<open>The key template \<open>`${stackName}:${name}:${type}`\<close> of \<open>collectResourceExportsByPrefix\<close>.\<close>

definition resourceExportKey :: "string option \<Rightarrow> string option \<Rightarrow> string option \<Rightarrow> string" where
  "resourceExportKey s n t = interpolate s @ '':'' @ interpolate n @ '':'' @ interpolate t"


text \<open>
  \<open>array.map(f)\<close> with a callback that may throw: the first exception ends the call.
\<close>

fun map_throwing :: "('a \<Rightarrow> error + 'b) \<Rightarrow> 'a list \<Rightarrow> error + 'b list" where
  "map_throwing f [] = Inr []"
| "map_throwing f (x # xs) =
     (case f x of
        Inl e \<Rightarrow> Inl e
      | Inr y \<Rightarrow> (case map_throwing f xs of Inl e \<Rightarrow> Inl e | Inr ys \<Rightarrow> Inr (y # ys)))"

text \<open>The optional parameter \<open>postfix\<close> defaults to \<open>'AccessRole'\<close> when it is not passed.\<close>

definition generateIamRoleResourceLogicalName ::
  "(char \<Rightarrow> string) \<Rightarrow> string \<Rightarrow> string \<Rightarrow> string \<Rightarrow> string option \<Rightarrow> error + string" where
  "generateIamRoleResourceLogicalName toUpperCase stackName' name' type' postfix' =
     (let postfix = (case postfix' of None \<Rightarrow> ''AccessRole'' | Some p \<Rightarrow> p) in
      case map_throwing (pascalCase toUpperCase) (js_split CHR ''-'' stackName') of
        Inl e \<Rightarrow> Inl e
      | Inr words \<Rightarrow>
          (let formattedStackName = concat words in
           case pascalCase toUpperCase name' of
             Inl e \<Rightarrow> Inl e
           | Inr formattedName \<Rightarrow>
               (case pascalCase toUpperCase type' of
                  Inl e \<Rightarrow> Inl e
                | Inr formattedType \<Rightarrow>
                    Inr (formattedStackName @ formattedName @ formattedType @ postfix))))"

section \<open>Policy statements by resource type\<close>

text \<open>
  The \<open>Resource\<close> of a statement is a string, an object \<open>{'Fn::Sub': template}\<close>, or an
  array of these.
\<close>

datatype ResourceRef = Arn string | FnSub string

datatype ResourceSpec = Single ResourceRef | Multiple "ResourceRef list"

record StatementHead =
  Effect :: string
  Action :: "string list"

record IamRoleStatement = StatementHead +
  Resource :: ResourceSpec

text \<open>
  \<open>if (logGroupArn)\<close>: the optional argument counts when it is passed and is not the
  empty string.
\<close>

definition defaultLambdaFunctionPolicyStatements ::
  "string \<Rightarrow> string option \<Rightarrow> IamRoleStatement list" where
  "defaultLambdaFunctionPolicyStatements functionArn logGroupArn =
     (let statements =
            [\<lparr> Effect = ''Allow'', Action = [''lambda:InvokeFunction''],
               Resource = Single (Arn functionArn) \<rparr>]
      in case logGroupArn of
           None \<Rightarrow> statements
         | Some l \<Rightarrow>
             if l \<noteq> []
             then statements @
                    [\<lparr> Effect = ''Allow'',
                       Action = [''logs:DescribeLogStreams'', ''logs:GetLogEvents''],
                       Resource = Single (Arn l) \<rparr>]
             else statements)"

definition defaultStateMachinePolicyStatements :: "string \<Rightarrow> IamRoleStatement list" where
  "defaultStateMachinePolicyStatements arn' =
     (let name' = index_int (js_split CHR '':'' arn') (- 1) in
      [\<lparr> Effect = ''Allow'',
         Action = [''states:ListExecutions'', ''states:StartExecution''],
         Resource = Single (Arn arn') \<rparr>,
       \<lparr> Effect = ''Allow'',
         Action = [''states:DescribeExecution''],
         Resource = Multiple
           [FnSub (''arn:aws:states:${AWS::Region}:${AWS::AccountId}:execution:''
                   @ interpolate name' @ '':*''),
            FnSub (''arn:aws:states:${AWS::Region}:${AWS::AccountId}:express:''
                   @ interpolate name' @ '':*:*'')] \<rparr>,
       \<lparr> Effect = ''Allow'',
         Action = [''states:StopExecution''],
         Resource = Single
           (FnSub (''arn:aws:states:${AWS::Region}:${AWS::AccountId}:execution:''
                   @ interpolate name' @ '':*'')) \<rparr>])"

definition generatePolicyStatementsByType :: "string \<Rightarrow> string \<Rightarrow> IamRoleStatement list" where
  "generatePolicyStatementsByType arn' type' =
     (if type' = ''function'' then defaultLambdaFunctionPolicyStatements arn' None
      else if type' = ''stateMachine'' then defaultStateMachinePolicyStatements arn'
      else [])"

section \<open>Role and output templates\<close>

record PrincipalInfo =
  principalAccountId :: string
  principalRoleName :: string
  externalId :: string

record PrincipalSpec =
  AWS :: string

text \<open>An object with string values, as its properties in order.\<close>

record ConditionSpec =
  StringEquals :: "(string \<times> string) list"

record TrustStatement = StatementHead +
  Principal :: PrincipalSpec
  Condition :: ConditionSpec

record 's PolicyDoc =
  Version :: string
  Statement :: 's

record Policy =
  PolicyName :: string
  PolicyDocument :: "IamRoleStatement list PolicyDoc"

record Described =
  Description :: string

record RoleProperties = Described +
  RoleName :: string
  AssumeRolePolicyDocument :: "TrustStatement PolicyDoc"
  Policies :: "Policy list"

record CloudFormationResource =
  Type :: string
  Properties :: RoleProperties

definition generateAccessRoleResource ::
  "string \<Rightarrow> string \<Rightarrow> PrincipalInfo \<Rightarrow> IamRoleStatement list \<Rightarrow> CloudFormationResource" where
  "generateAccessRoleResource stackName' name' principalInfo policyStatements =
     \<lparr> Type = ''AWS::IAM::Role'',
       Properties =
         \<lparr> Description = ''Access role to '' @ name' @ '' of '' @ stackName',
           RoleName = stackName' @ ''-'' @ name',
           AssumeRolePolicyDocument =
             \<lparr> Version = ''2012-10-17'',
               Statement =
                 \<lparr> Effect = ''Allow'',
                   Action = [''sts:AssumeRole''],
                   Principal =
                     \<lparr> AWS = ''arn:aws:sts::'' @ principalAccountId principalInfo
                             @ '':assumed-role/'' @ principalRoleName principalInfo
                             @ ''/CognitoIdentityCredentials'' \<rparr>,
                   Condition =
                     \<lparr> StringEquals = [(''sts:ExternalId'', externalId principalInfo)] \<rparr> \<rparr> \<rparr>,
           Policies =
             [\<lparr> PolicyName = ''EmbeddedInlinePolicy'',
                PolicyDocument =
                  \<lparr> Version = ''2012-10-17'', Statement = policyStatements \<rparr> \<rparr>] \<rparr> \<rparr>"

text \<open>The output's \<open>Value\<close> is the object \<open>{'Fn::GetAtt': [logicalName, 'Arn']}\<close>.\<close>

datatype OutputValue = FnGetAtt "string list"

record AccessRoleOutput = Described +
  Value' :: OutputValue

definition generateAccessRoleOutput :: "string \<Rightarrow> string \<Rightarrow> string \<Rightarrow> AccessRoleOutput" where
  "generateAccessRoleOutput stackName' name' logicalName =
     \<lparr> Description = ''Arn of '' @ stackName' @ ''-'' @ name' @ '' access role'',
       Value' = FnGetAtt [logicalName, ''Arn''] \<rparr>"

section \<open>Collecting the exports of other stacks\<close>

text \<open>
  A plain object used as a dictionary is the list of its properties in enumeration
  order: assigning to a property it has keeps the property's place, assigning to a new
  one appends it (\<open>AList.update\<close>), and a \<open>for ... in\<close> loop runs through the list.
  Looking a property up is \<open>map_of\<close>. This is the model of the objects whose property
  names hold a colon (the collected exports) or end in \<open>AccessRole\<close> or \<open>AccessRoleArn\<close>
  (the generated resources and outputs): such a name is neither a property of
  \<open>Object.prototype\<close> nor an array index.
\<close>

type_synonym 'v obj = "(string \<times> 'v) list"

record Export =
  ExportingStackId :: string
  Name :: string
  Value :: string

record ResourceInfo =
  arn :: string
  description :: string

record ResourceExport = ResourceInfo +
  roleOutputKey :: string

record ResourceOutput = ResourceInfo +
  role :: "string option"

text \<open>The body of the loop of \<open>collectResourceExportsByPrefix\<close>, for one export.\<close>

definition collectExport :: "string \<Rightarrow> ResourceExport obj \<Rightarrow> Export \<Rightarrow> ResourceExport obj" where
  "collectExport exportPrefix resources e =
     (let f = splitExportName (Name e) in
      if prefix f = Some exportPrefix then
        (let key = resourceExportKey (stackName f) (name f) (type f);
             resources1 =
               (if map_of resources key = None
                then AList.update key \<lparr> arn = [], description = [], roleOutputKey = [] \<rparr> resources
                else resources);
             resources2 =
               (if resource f = Some ''arn''
                then AList.map_entry key (\<lambda>r. r\<lparr> arn := Value e \<rparr>) resources1
                else resources1)
         in if resource f = Some ''description''
            then AList.map_entry key (\<lambda>r. r\<lparr> description := Value e \<rparr>) resources2
            else resources2)
      else resources)"

definition collectResourceExportsByPrefix :: "string \<Rightarrow> Export list \<Rightarrow> ResourceExport obj" where
  "collectResourceExportsByPrefix exportPrefix exports =
     foldl (collectExport exportPrefix) [] exports"

section \<open>Generating the access roles (src/index.ts)\<close>

text \<open>
  \<open>generateAccessRoles\<close> runs through the collected exports, adds one role and one
  output for each and writes the output's key back into the export. The result is the
  generated resources, the generated outputs and the updated exports; an exception of
  \<open>splitResourceExportKey\<close> or of \<open>generateIamRoleResourceLogicalName\<close> ends the loop.
\<close>

fun generateAccessRoles_loop ::
  "(char \<Rightarrow> string) \<Rightarrow> PrincipalInfo \<Rightarrow> ResourceExport obj \<Rightarrow>
   CloudFormationResource obj \<times> AccessRoleOutput obj \<times> ResourceExport obj \<Rightarrow>
   error + CloudFormationResource obj \<times> AccessRoleOutput obj \<times> ResourceExport obj" where
  "generateAccessRoles_loop toUpperCase principalInfo [] acc = Inr acc"
| "generateAccessRoles_loop toUpperCase principalInfo ((key, resource') # rest)
     (resources, outputs, resourceExports) =
     (case splitResourceExportKey key of
        Inl e \<Rightarrow> Inl e
      | Inr k \<Rightarrow>
          (case generateIamRoleResourceLogicalName toUpperCase (stackName k) (name k) (type k)
                  None of
             Inl e \<Rightarrow> Inl e
           | Inr logicalName \<Rightarrow>
               (let resources1 =
                      AList.update logicalName
                        (generateAccessRoleResource (stackName k) (name k) principalInfo
                           (generatePolicyStatementsByType (arn resource') (type k)))
                        resources;
                    outputKey = logicalName @ ''Arn'';
                    outputs1 =
                      AList.update outputKey
                        (generateAccessRoleOutput (stackName k) (name k) logicalName) outputs;
                    resourceExports1 =
                      AList.map_entry key (\<lambda>r. r\<lparr> roleOutputKey := outputKey \<rparr>) resourceExports
                in generateAccessRoles_loop toUpperCase principalInfo rest
                     (resources1, outputs1, resourceExports1))))"

definition generateAccessRoles ::
  "(char \<Rightarrow> string) \<Rightarrow> PrincipalInfo \<Rightarrow> ResourceExport obj \<Rightarrow>
   error + CloudFormationResource obj \<times> AccessRoleOutput obj \<times> ResourceExport obj" where
  "generateAccessRoles toUpperCase principalInfo resourceExports =
     generateAccessRoles_loop toUpperCase principalInfo resourceExports
       ([], [], resourceExports)"

section \<open>Resolving the role ARNs after the deployment\<close>

text \<open>The fields of a stack output that the plugin reads; both are optional.\<close>

record StackOutput =
  OutputKey :: "string option"
  OutputValue :: "string option"

text \<open>
  The object \<open>resourceOutputs\<close> gets property names that come from the keys, so the
  properties it inherits matter, and it is modelled with its prototype. A value is
  \<open>undefined\<close>, a string, an entry \<open>{arn, description, role}\<close>, another object given by its
  own enumerable properties, or a function. The order of the properties is not modelled.
\<close>

datatype Value =
  Undefined
| Str string
| Entry ResourceOutput
| Object "string \<Rightarrow> Value option"
| Function

text \<open>
  \<open>resourceOutputs\<close>: its own properties and its prototype, \<open>None\<close> for
  \<open>Object.prototype\<close> and \<open>Some q\<close> for an object with the own properties \<open>q\<close> (whose
  prototype is \<open>Object.prototype\<close>).
\<close>

record ResourceOutputs =
  own :: "string \<Rightarrow> Value option"
  proto :: "(string \<Rightarrow> Value option) option"

text \<open>
  The properties of \<open>Object.prototype\<close> are the accessor \<open>__proto__\<close> and these
  functions; none of them is enumerable.
\<close>

definition objectPrototypeFunctions :: "string list" where
  "objectPrototypeFunctions =
     [''constructor'', ''__defineGetter__'', ''__defineSetter__'', ''hasOwnProperty'',
      ''__lookupGetter__'', ''__lookupSetter__'', ''isPrototypeOf'',
      ''propertyIsEnumerable'', ''toString'', ''valueOf'', ''toLocaleString'']"

text \<open>
  \<open>resourceOutputs[p]\<close>: an own property, else a property of the prototype object, else
  one of \<open>Object.prototype\<close>, where \<open>__proto__\<close> reads the prototype of \<open>resourceOutputs\<close>
  (an object without enumerable properties when it is \<open>Object.prototype\<close>).
\<close>

definition getProperty :: "ResourceOutputs \<Rightarrow> string \<Rightarrow> Value" where
  "getProperty resourceOutputs p =
     (case own resourceOutputs p of
        Some v \<Rightarrow> v
      | None \<Rightarrow>
          (case (case proto resourceOutputs of None \<Rightarrow> None | Some q \<Rightarrow> q p) of
             Some v \<Rightarrow> v
           | None \<Rightarrow>
               if p = ''__proto__''
               then Object (case proto resourceOutputs of None \<Rightarrow> Map.empty | Some q \<Rightarrow> q)
               else if p \<in> set objectPrototypeFunctions then Function
               else Undefined))"

text \<open>
  \<open>resourceOutputs[p] = {...}\<close>: the setter of \<open>__proto__\<close> replaces the prototype,
  unless \<open>__proto__\<close> is the name of an own property or of a property of the prototype
  object; every other assignment writes an own property.
\<close>

definition setProperty ::
  "ResourceOutputs \<Rightarrow> string \<Rightarrow> (string \<Rightarrow> Value option) \<Rightarrow> ResourceOutputs" where
  "setProperty resourceOutputs p props =
     (if p = ''__proto__'' \<and> own resourceOutputs p = None
         \<and> (case proto resourceOutputs of None \<Rightarrow> True | Some q \<Rightarrow> q p = None)
      then resourceOutputs\<lparr> proto := Some props \<rparr>
      else resourceOutputs\<lparr> own := (own resourceOutputs)(p \<mapsto> Object props) \<rparr>)"

text \<open>\<open>!v\<close> is false for objects, functions and strings that are not empty.\<close>

definition truthy :: "Value \<Rightarrow> bool" where
  "truthy v = (case v of Undefined \<Rightarrow> False | Str s \<Rightarrow> s \<noteq> [] | _ \<Rightarrow> True)"

text \<open>The decimal numeral of an array index, as a property name.\<close>

function decimal :: "nat \<Rightarrow> string" where
  "decimal n =
     (if n < 10 then [char_of (48 + n)] else decimal (n div 10) @ [char_of (48 + n mod 10)])"
  by pat_completeness auto
termination
  by (relation "measure id") auto

declare decimal.simps [simp del]

text \<open>
  The properties that \<open>{...v}\<close> copies: the own enumerable properties of an object, the
  characters of a string under their indices, nothing for \<open>undefined\<close> and for a
  function.
\<close>

definition ownEnumerable :: "Value \<Rightarrow> (string \<Rightarrow> Value option)" where
  "ownEnumerable v =
     (case v of
        Undefined \<Rightarrow> Map.empty
      | Str s \<Rightarrow> map_of (zip (map decimal [0..<length s]) (map (\<lambda>c. Str [c]) s))
      | Entry e \<Rightarrow>
          [''arn'' \<mapsto> Str (arn e), ''description'' \<mapsto> Str (description e),
           ''role'' \<mapsto> (case role e of None \<Rightarrow> Undefined | Some v \<Rightarrow> Str v)]
      | Object props \<Rightarrow> props
      | Function \<Rightarrow> Map.empty)"

text \<open>
  The end of a turn of the loop of \<open>collectAccessRolesArnFromStackOutputs\<close> (utils.ts,
  lines 247 to 260): the entry \<open>e\<close> is put under \<open>fullName\<close> in a new object that takes
  over the properties read at \<open>stackName\<close>, and the new object is assigned to \<open>stackName\<close>.
\<close>

definition assignResourceOutput ::
  "ResourceOutputs \<Rightarrow> string \<Rightarrow> string \<Rightarrow> ResourceOutput \<Rightarrow> ResourceOutputs" where
  "assignResourceOutput resourceOutputs stackName' fullName e =
     (let temp = [fullName \<mapsto> Entry e];
          resourceOutputs1 =
            (if \<not> truthy (getProperty resourceOutputs stackName')
             then setProperty resourceOutputs stackName' Map.empty
             else resourceOutputs)
      in setProperty resourceOutputs1 stackName'
           (ownEnumerable (getProperty resourceOutputs1 stackName') ++ temp))"

fun collectAccessRolesArn_loop ::
  "StackOutput list \<Rightarrow> ResourceExport obj \<Rightarrow> ResourceOutputs \<Rightarrow> error + ResourceOutputs" where
  "collectAccessRolesArn_loop stackOutputs [] resourceOutputs = Inr resourceOutputs"
| "collectAccessRolesArn_loop stackOutputs ((key, r) # rest) resourceOutputs =
     (let stackName' = interpolate (index (js_split CHR '':'' key) 0);
          fullName = interpolate (index (js_split CHR '':'' key) 1);
          cfnRoleOutput =
            index (filter (\<lambda>output. OutputKey output = Some (roleOutputKey r)) stackOutputs) 0
      in case cfnRoleOutput of
           None \<Rightarrow> Inl (Error (''Unable to find output: '' @ roleOutputKey r))
         | Some output \<Rightarrow>
             collectAccessRolesArn_loop stackOutputs rest
               (assignResourceOutput resourceOutputs stackName' fullName
                  \<lparr> arn = arn r, description = description r, role = OutputValue output \<rparr>))"

definition collectAccessRolesArnFromStackOutputs ::
  "StackOutput list \<Rightarrow> ResourceExport obj \<Rightarrow> error + ResourceOutputs" where
  "collectAccessRolesArnFromStackOutputs stackOutputs resourceExports =
     collectAccessRolesArn_loop stackOutputs resourceExports
       \<lparr> own = Map.empty, proto = None \<rparr>"

text \<open>
  The \<open>export\<close> hook of the plugin (src/index.ts), after the stack has been described:
  \<open>stackOutputs\<close> is the \<open>Outputs\<close> of the described stack, \<open>undefined\<close> when it has
  none, and \<open>outFile\<close> is what the output file holds, \<open>None\<close> when nothing has been
  written. The hook returns the exception it throws, if any, and the file afterwards:
  \<open>exportToFile\<close> is only reached when the manifest has been built, and
  \<open>JSON.stringify\<close> writes the own properties of the manifest.
\<close>

definition export ::
  "string \<Rightarrow> StackOutput list option \<Rightarrow> ResourceExport obj \<Rightarrow>
   (string \<Rightarrow> Value option) option \<Rightarrow> error option \<times> (string \<Rightarrow> Value option) option" where
  "export serviceName stackOutputs resourceExports outFile =
     (case stackOutputs of
        None \<Rightarrow> (Some (Error (''Unable to describe stack: '' @ serviceName)), outFile)
      | Some outputs \<Rightarrow>
          (case collectAccessRolesArnFromStackOutputs outputs resourceExports of
             Inl e \<Rightarrow> (Some e, outFile)
           | Inr resourceOutputs \<Rightarrow> (None, Some (own resourceOutputs))))"

section \<open>Auxiliary notions for the statements\<close>

text \<open>
  The upper-case letters of the ASCII letters \<open>a\<close> to \<open>z\<close>, every other character
  kept: an instance of the parameter \<open>toUpperCase\<close> for examples in ASCII.
\<close>

definition asciiUpper :: "char \<Rightarrow> string" where
  "asciiUpper c =
     (let n = (of_char c :: nat) in if 97 \<le> n \<and> n \<le> 122 then [char_of (n - 32)] else [c])"

text \<open>Two adjacent occurrences of the separator \<open>d\<close> somewhere in the string.\<close>

fun doubled :: "'a \<Rightarrow> 'a list \<Rightarrow> bool" where
  "doubled d (x # y # r) = (x = d \<and> y = d \<or> doubled d (y # r))"
| "doubled d r = False"

text \<open>
  The stack name and the resource name that \<open>collectAccessRolesArnFromStackOutputs\<close>
  reads from a key, as property names.
\<close>

definition keyStack :: "string \<Rightarrow> string" where
  "keyStack key = interpolate (index (js_split CHR '':'' key) 0)"

definition keyName :: "string \<Rightarrow> string" where
  "keyName key = interpolate (index (js_split CHR '':'' key) 1)"

text \<open>The manifest entry of a pending resource: its role is the value of the first
  output whose key is the resource's \<open>roleOutputKey\<close>.\<close>

definition resolve :: "StackOutput list \<Rightarrow> ResourceExport \<Rightarrow> ResourceOutput option" where
  "resolve stackOutputs r =
     (case find (\<lambda>output. OutputKey output = Some (roleOutputKey r)) stackOutputs of
        None \<Rightarrow> None
      | Some output \<Rightarrow>
          Some \<lparr> arn = arn r, description = description r, role = OutputValue output \<rparr>)"

text \<open>The last element of a list that satisfies a predicate.\<close>

fun find_last :: "('a \<Rightarrow> bool) \<Rightarrow> 'a list \<Rightarrow> 'a option" where
  "find_last P [] = None"
| "find_last P (x # xs) =
     (case find_last P xs of Some y \<Rightarrow> Some y | None \<Rightarrow> if P x then Some x else None)"

text \<open>
  The entry of the manifest under a stack name and a resource name: the property
  \<open>n\<close> of the object that is the own property \<open>s\<close>.
\<close>

definition entry :: "ResourceOutputs \<Rightarrow> string \<Rightarrow> string \<Rightarrow> Value option" where
  "entry m s n = (case own m s of Some (Object inner) \<Rightarrow> inner n | _ \<Rightarrow> None)"

text \<open>
  A manifest whose prototype is still \<open>Object.prototype\<close> and whose own properties are
  all objects.
\<close>

definition plain :: "ResourceOutputs \<Rightarrow> bool" where
  "plain m = (proto m = None \<and> (\<forall>s v. own m s = Some v \<longrightarrow> (\<exists>inner. v = Object inner)))"

text \<open>
  What \<open>collectResourceExportsByPrefix\<close> reads from an export: whether its decoded
  prefix is the configured one, the key it is collected under, its decoded field and
  the decoded triple of stack name, resource name and resource type.
\<close>

definition matchesPrefix :: "string \<Rightarrow> Export \<Rightarrow> bool" where
  "matchesPrefix exportPrefix e = (prefix (splitExportName (Name e)) = Some exportPrefix)"

definition exportKey :: "Export \<Rightarrow> string" where
  "exportKey e =
     (let f = splitExportName (Name e) in resourceExportKey (stackName f) (name f) (type f))"

definition exportField :: "Export \<Rightarrow> string option" where
  "exportField e = resource (splitExportName (Name e))"

definition exportTriple :: "Export \<Rightarrow> string option \<times> string option \<times> string option" where
  "exportTriple e = (let f = splitExportName (Name e) in (stackName f, name f, type f))"

text \<open>The entry created for a key at its first export.\<close>

definition emptyResource :: ResourceExport where
  "emptyResource = \<lparr> arn = [], description = [], roleOutputKey = [] \<rparr>"

text \<open>
  The value of the last export of a list that has the configured prefix, the given key
  and the given field; the empty string when there is none.
\<close>

definition lastValue :: "string \<Rightarrow> string \<Rightarrow> string \<Rightarrow> Export list \<Rightarrow> string" where
  "lastValue exportPrefix key field exports =
     (case find_last (\<lambda>e. matchesPrefix exportPrefix e \<and> exportKey e = key
                            \<and> exportField e = Some field) exports of
        None \<Rightarrow> [] | Some e \<Rightarrow> Value e)"

text \<open>The triple that a key of three colon-free fields was built from.\<close>

definition tripleOfKey :: "string \<Rightarrow> string option \<times> string option \<times> string option" where
  "tripleOfKey k = (let l = js_split CHR '':'' k in (index l 0, index l 1, index l 2))"

section \<open>Properties of the string primitives\<close>

lemmas asciiUpper_eval = asciiUpper_def char_of_def bit_iff_odd

lemma asciiUpper_plain: "CHR ''$'' \<in> set (asciiUpper c) \<longrightarrow> asciiUpper c = ''$''"
proof (cases "97 \<le> (of_char c :: nat) \<and> (of_char c :: nat) \<le> 122")
  case True
  have "char_of (of_char c - 32 :: nat) \<noteq> CHR ''$''"
  proof
    assume "char_of (of_char c - 32 :: nat) = CHR ''$''"
    then have "(of_char (char_of (of_char c - 32 :: nat)) :: nat) = of_char CHR ''$''"
      by simp
    then have "(of_char c - 32 :: nat) mod 256 = 36" by simp
    moreover have "(of_char c - 32 :: nat) < 256" using True by arith
    ultimately have "(of_char c - 32 :: nat) = 36" by simp
    then show False using True by arith
  qed
  with True show ?thesis by (simp add: asciiUpper_def)
next
  case False
  then show ?thesis by (auto simp: asciiUpper_def)
qed

lemma asciiUpper_letters:
  "asciiUpper CHR ''o'' = ''O''" "asciiUpper CHR ''s'' = ''S''" "asciiUpper CHR ''d'' = ''D''"
  "asciiUpper CHR ''c'' = ''C''" "asciiUpper CHR ''f'' = ''F''"
  by (simp_all add: asciiUpper_eval)

lemma getSubstitution_plain:
  "CHR ''$'' \<notin> set rep \<or> rep = ''$'' \<Longrightarrow> getSubstitution m b a rep = rep"
  by (induction m b a rep rule: getSubstitution.induct) auto

lemma js_split_not_Nil: "js_split d s \<noteq> []"
  by (induction s) (auto split: list.splits)

lemma length_js_split: "length (js_split d s) = Suc (count_list s d)"
  by (induction s) (auto split: list.splits)

lemma js_split_no_sep: "d \<notin> set s \<Longrightarrow> js_split d s = [s]"
  by (induction s) (auto split: list.splits)

lemma js_split_field: "d \<notin> set s \<Longrightarrow> js_split d (s @ d # r) = s # js_split d r"
  by (induction s) (auto split: list.splits)

lemma js_split_fields_no_sep: "w \<in> set (js_split d s) \<Longrightarrow> d \<notin> set w"
  by (induction s arbitrary: w) (auto split: list.splits if_splits)

lemma hd_js_split_Nil: "(hd (js_split d s) = []) = (s = [] \<or> hd s = d)"
  by (cases s) (auto split: list.splits)

lemma tl_js_split_Cons:
  "tl (js_split d (c # cs)) = (if c = d then js_split d cs else tl (js_split d cs))"
  by (auto split: list.splits)

lemma in_js_split:
  "([] \<in> set (js_split d s)) = (s = [] \<or> hd s = d \<or> [] \<in> set (tl (js_split d s)))"
  using js_split_not_Nil[of d s] hd_js_split_Nil[of d s]
  by (cases "js_split d s") auto

lemma empty_tail_field:
  "([] \<in> set (tl (js_split d s))) = (s \<noteq> [] \<and> last s = d \<or> doubled d s)"
proof (induction s)
  case Nil
  then show ?case by simp
next
  case (Cons c cs)
  show ?case
  proof (cases cs)
    case Nil
    then show ?thesis by (simp add: tl_js_split_Cons)
  next
    case (Cons y r)
    have "([] \<in> set (tl (js_split d (c # cs)))) =
          (if c = d then hd cs = d \<or> last cs = d \<or> doubled d cs
           else last cs = d \<or> doubled d cs)"
      unfolding tl_js_split_Cons using Cons.IH in_js_split[of d cs] Cons
      by (simp del: js_split.simps)
    then show ?thesis
      using Cons by (auto simp del: js_split.simps)
  qed
qed

lemma empty_field_iff:
  "([] \<in> set (js_split d s)) = (s = [] \<or> hd s = d \<or> last s = d \<or> doubled d s)"
  using in_js_split[of d s] empty_tail_field[of d s] by auto

lemma pascalCase_Nil: "pascalCase up [] = Inl TypeError"
  by (simp add: pascalCase_def)

lemma pascalCase_Cons:
  "pascalCase up (c # cs) = Inr (getSubstitution [c] [] cs (up c) @ cs)"
  by (simp add: pascalCase_def replace_def)

lemma pascalCase_plain:
  "CHR ''$'' \<notin> set (up (hd s)) \<or> up (hd s) = ''$'' \<Longrightarrow> s \<noteq> [] \<Longrightarrow>
   pascalCase up s = Inr (up (hd s) @ tl s)"
  by (cases s) (simp_all add: pascalCase_Cons getSubstitution_plain)

lemma map_throwing_ok:
  "\<forall>w\<in>set ws. f w = Inr (g w) \<Longrightarrow> map_throwing f ws = Inr (map g ws)"
  by (induction ws) auto

lemma map_throwing_pascalCase_err:
  "[] \<in> set ws \<Longrightarrow> map_throwing (pascalCase up) ws = Inl TypeError"
proof (induction ws)
  case Nil
  then show ?case by simp
next
  case (Cons w ws)
  show ?case
  proof (cases w)
    case Nil
    then show ?thesis by (simp add: pascalCase_Nil)
  next
    case (Cons c cs)
    with Cons.prems Cons.IH show ?thesis by (simp add: pascalCase_Cons)
  qed
qed

text \<open>What \<open>pascalCase\<close> returns for a string that is not empty.\<close>

lemma pascalCase_value:
  "s \<noteq> [] \<Longrightarrow> pascalCase up s = Inr (getSubstitution [hd s] [] (tl s) (up (hd s)) @ tl s)"
  by (cases s) (simp_all add: pascalCase_Cons)

lemma logicalName_cases:
  "generateIamRoleResourceLogicalName up s n t p =
     (if [] \<in> set (js_split CHR ''-'' s) \<or> n = [] \<or> t = [] then Inl TypeError
      else Inr (concat (map (\<lambda>w. getSubstitution [hd w] [] (tl w) (up (hd w)) @ tl w)
                          (js_split CHR ''-'' s))
                @ (getSubstitution [hd n] [] (tl n) (up (hd n)) @ tl n)
                @ (getSubstitution [hd t] [] (tl t) (up (hd t)) @ tl t)
                @ (case p of None \<Rightarrow> ''AccessRole'' | Some q \<Rightarrow> q)))"
proof (cases "[] \<in> set (js_split CHR ''-'' s)")
  case True
  then show ?thesis
    by (simp add: generateIamRoleResourceLogicalName_def map_throwing_pascalCase_err)
next
  case False
  then have "\<forall>w\<in>set (js_split CHR ''-'' s). w \<noteq> []" by auto
  then have "\<forall>w\<in>set (js_split CHR ''-'' s).
      pascalCase up w = Inr (getSubstitution [hd w] [] (tl w) (up (hd w)) @ tl w)"
    by (simp add: pascalCase_value)
  then have "map_throwing (pascalCase up) (js_split CHR ''-'' s)
      = Inr (map (\<lambda>w. getSubstitution [hd w] [] (tl w) (up (hd w)) @ tl w)
               (js_split CHR ''-'' s))"
    by (rule map_throwing_ok)
  with False show ?thesis
    by (cases n; cases t)
       (simp_all add: generateIamRoleResourceLogicalName_def pascalCase_Nil pascalCase_Cons)
qed

lemma logicalName_plain:
  assumes "\<forall>c. CHR ''$'' \<in> set (up c) \<longrightarrow> up c = ''$''"
  shows "generateIamRoleResourceLogicalName up s n t p =
     (if [] \<in> set (js_split CHR ''-'' s) \<or> n = [] \<or> t = [] then Inl TypeError
      else Inr (concat (map (\<lambda>w. up (hd w) @ tl w) (js_split CHR ''-'' s))
                @ (up (hd n) @ tl n) @ (up (hd t) @ tl t)
                @ (case p of None \<Rightarrow> ''AccessRole'' | Some q \<Rightarrow> q)))"
proof -
  have "getSubstitution m b a (up c) = up c" for m b a c
    using assms by (intro getSubstitution_plain) auto
  then show ?thesis by (simp add: logicalName_cases)
qed

section \<open>The export-key codec\<close>

text \<open>
  C7. \<open>splitResourceExportKey\<close> throws exactly when splitting the key on \<open>:\<close> does not
  give three fields, that is when the key does not hold exactly two colons; the error
  message is \<open>Incorrect resource export key: \<close> followed by the key. Otherwise it
  returns the three fields in their order as \<open>stackName\<close>, \<open>name\<close> and \<open>type\<close>.
\<close>

theorem splitResourceExportKey_arity:
  "((\<exists>e. splitResourceExportKey key = Inl e) = (length (js_split CHR '':'' key) \<noteq> 3))
   \<and> (length (js_split CHR '':'' key) \<noteq> 3 \<longrightarrow>
        splitResourceExportKey key = Inl (Error (''Incorrect resource export key: '' @ key)))
   \<and> (\<forall>a b c. js_split CHR '':'' key = [a, b, c] \<longrightarrow>
        splitResourceExportKey key = Inr \<lparr> stackName = a, name = b, type = c \<rparr>)
   \<and> ((length (js_split CHR '':'' key) = 3) = (count_list key CHR '':'' = 2))"
  by (auto simp: splitResourceExportKey_def length_js_split Let_def)

theorem splitResourceExportKey_arity_witness:
  "splitResourceExportKey ''orders:createOrder:function''
     = Inr \<lparr> stackName = ''orders'', name = ''createOrder'', type = ''function'' \<rparr>
   \<and> splitResourceExportKey ''orders:createOrder''
     = Inl (Error ''Incorrect resource export key: orders:createOrder'')
   \<and> splitResourceExportKey ''a:b:c:d'' = Inl (Error ''Incorrect resource export key: a:b:c:d'')"
  using splitResourceExportKey_arity [of "''orders:createOrder:function''"]
        splitResourceExportKey_arity [of "''orders:createOrder''"]
        splitResourceExportKey_arity [of "''a:b:c:d''"]
  by simp

text \<open>
  C9. For strings \<open>s\<close>, \<open>n\<close>, \<open>t\<close> without a colon, the key built by the template
  \<open>`${stackName}:${name}:${type}`\<close> is \<open>s:n:t\<close>, and \<open>splitResourceExportKey\<close> gives
  \<open>s\<close>, \<open>n\<close>, \<open>t\<close> back: decoding is a left inverse of encoding.
\<close>

theorem splitResourceExportKey_left_inverse:
  assumes "CHR '':'' \<notin> set s" and "CHR '':'' \<notin> set n" and "CHR '':'' \<notin> set t"
  shows "resourceExportKey (Some s) (Some n) (Some t) = s @ '':'' @ n @ '':'' @ t
         \<and> splitResourceExportKey (resourceExportKey (Some s) (Some n) (Some t))
             = Inr \<lparr> stackName = s, name = n, type = t \<rparr>"
  using assms
  by (simp add: splitResourceExportKey_def resourceExportKey_def interpolate_def
        js_split_field js_split_no_sep)

theorem splitResourceExportKey_left_inverse_witness:
  "resourceExportKey (Some ''orders'') (Some ''createOrder'') (Some ''function'')
     = ''orders:createOrder:function''
   \<and> splitResourceExportKey
       (resourceExportKey (Some ''orders'') (Some ''createOrder'') (Some ''function''))
     = Inr \<lparr> stackName = ''orders'', name = ''createOrder'', type = ''function'' \<rparr>"
  using splitResourceExportKey_left_inverse [of "''orders''" "''createOrder''" "''function''"]
  by (simp add: resourceExportKey_def interpolate_def)

section \<open>The logical name of a role\<close>

text \<open>
  C4. For every stack name, name and type, \<open>generateIamRoleResourceLogicalName\<close> splits
  the stack name on \<open>-\<close> and replaces the first character of each segment, of the name
  and of the type by its upper case, leaving the rest unchanged; an empty segment, name
  or type has no first character, and the call throws. Otherwise it returns the segments
  concatenated, then the name, the type and \<open>AccessRole\<close>. This holds for every upper-case
  function of the engine that gives no \<open>$\<close> except for \<open>$\<close> itself (the replacement is
  then taken literally). Where \<open>o\<close>, \<open>c\<close>, \<open>f\<close> have the upper case \<open>O\<close>, \<open>C\<close>, \<open>F\<close>,
  the name for \<open>orders\<close>, \<open>createOrder\<close>, \<open>function\<close> is
  \<open>OrdersCreateOrderFunctionAccessRole\<close>, and \<open>generateAccessRoles\<close> registers the output
  under \<open>OrdersCreateOrderFunctionAccessRoleArn\<close> and stores that key in the export.
\<close>

theorem generateIamRoleResourceLogicalName_format:
  assumes "\<forall>c. CHR ''$'' \<in> set (toUpperCase c) \<longrightarrow> toUpperCase c = ''$''"
  shows "generateIamRoleResourceLogicalName toUpperCase s n t None
     = (if [] \<in> set (js_split CHR ''-'' s) \<or> n = [] \<or> t = [] then Inl TypeError
        else Inr (concat (map (\<lambda>w. toUpperCase (hd w) @ tl w) (js_split CHR ''-'' s))
                  @ (toUpperCase (hd n) @ tl n) @ (toUpperCase (hd t) @ tl t)
                  @ ''AccessRole''))
     \<and> (toUpperCase CHR ''o'' = ''O'' \<and> toUpperCase CHR ''c'' = ''C''
          \<and> toUpperCase CHR ''f'' = ''F'' \<longrightarrow>
        generateIamRoleResourceLogicalName toUpperCase ''orders'' ''createOrder'' ''function'' None
          = Inr ''OrdersCreateOrderFunctionAccessRole''
        \<and> generateAccessRoles toUpperCase principalInfo [(''orders:createOrder:function'', r)]
          = Inr ([(''OrdersCreateOrderFunctionAccessRole'',
                   generateAccessRoleResource ''orders'' ''createOrder'' principalInfo
                     (generatePolicyStatementsByType (arn r) ''function''))],
                 [(''OrdersCreateOrderFunctionAccessRoleArn'',
                   generateAccessRoleOutput ''orders'' ''createOrder''
                     ''OrdersCreateOrderFunctionAccessRole'')],
                 [(''orders:createOrder:function'',
                   r\<lparr> roleOutputKey := ''OrdersCreateOrderFunctionAccessRoleArn'' \<rparr>)]))"
proof (intro conjI impI)
  show "generateIamRoleResourceLogicalName toUpperCase s n t None
     = (if [] \<in> set (js_split CHR ''-'' s) \<or> n = [] \<or> t = [] then Inl TypeError
        else Inr (concat (map (\<lambda>w. toUpperCase (hd w) @ tl w) (js_split CHR ''-'' s))
                  @ (toUpperCase (hd n) @ tl n) @ (toUpperCase (hd t) @ tl t)
                  @ ''AccessRole''))"
    using assms by (simp add: logicalName_plain)
next
  assume up: "toUpperCase CHR ''o'' = ''O'' \<and> toUpperCase CHR ''c'' = ''C''
          \<and> toUpperCase CHR ''f'' = ''F''"
  then show example:
    "generateIamRoleResourceLogicalName toUpperCase ''orders'' ''createOrder'' ''function'' None
      = Inr ''OrdersCreateOrderFunctionAccessRole''"
    using assms by (simp add: logicalName_plain)
  have key: "splitResourceExportKey ''orders:createOrder:function''
      = Inr \<lparr> stackName = ''orders'', name = ''createOrder'', type = ''function'' \<rparr>"
    by (simp add: splitResourceExportKey_def)
  show "generateAccessRoles toUpperCase principalInfo [(''orders:createOrder:function'', r)]
          = Inr ([(''OrdersCreateOrderFunctionAccessRole'',
                   generateAccessRoleResource ''orders'' ''createOrder'' principalInfo
                     (generatePolicyStatementsByType (arn r) ''function''))],
                 [(''OrdersCreateOrderFunctionAccessRoleArn'',
                   generateAccessRoleOutput ''orders'' ''createOrder''
                     ''OrdersCreateOrderFunctionAccessRole'')],
                 [(''orders:createOrder:function'',
                   r\<lparr> roleOutputKey := ''OrdersCreateOrderFunctionAccessRoleArn'' \<rparr>)])"
    by (simp add: generateAccessRoles_def key example Let_def)
qed

theorem generateIamRoleResourceLogicalName_format_witness:
  "[] \<notin> set (js_split CHR ''-'' ''orders-service-dev'')
   \<and> generateIamRoleResourceLogicalName asciiUpper ''orders-service-dev'' ''createOrder''
         ''stateMachine'' None
       = Inr ''OrdersServiceDevCreateOrderStateMachineAccessRole''
   \<and> generateIamRoleResourceLogicalName asciiUpper ''orders-service-dev'' ''createOrder'' [] None
       = Inl TypeError
   \<and> generateIamRoleResourceLogicalName asciiUpper ''orders'' ''createOrder'' ''function'' None
       = Inr ''OrdersCreateOrderFunctionAccessRole''"
proof -
  have plain: "\<forall>c. CHR ''$'' \<in> set (asciiUpper c) \<longrightarrow> asciiUpper c = ''$''"
    using asciiUpper_plain by blast
  show ?thesis
    using
      generateIamRoleResourceLogicalName_format
        [OF plain, of "''orders-service-dev''" "''createOrder''" "''stateMachine''"]
      generateIamRoleResourceLogicalName_format
        [OF plain, of "''orders-service-dev''" "''createOrder''" "[]"]
      generateIamRoleResourceLogicalName_format
        [OF plain, of "''orders''" "''createOrder''" "''function''"]
    by (simp add: asciiUpper_letters)
qed

text \<open>
  C10. \<open>generateIamRoleResourceLogicalName\<close> throws a TypeError exactly when a
  \<open>-\<close>-separated segment of the stack name is empty or the name or the type is the
  empty string, and returns a name otherwise, whatever the upper-case function of the
  engine gives. A segment is empty exactly when the stack name is empty, begins or ends
  with a hyphen, or has two hyphens in a row.
\<close>

theorem generateIamRoleResourceLogicalName_throws:
  "((generateIamRoleResourceLogicalName toUpperCase s n t p = Inl TypeError)
      = ([] \<in> set (js_split CHR ''-'' s) \<or> n = [] \<or> t = []))
   \<and> ((\<exists>l. generateIamRoleResourceLogicalName toUpperCase s n t p = Inr l)
      = ([] \<notin> set (js_split CHR ''-'' s) \<and> n \<noteq> [] \<and> t \<noteq> []))
   \<and> (([] \<in> set (js_split CHR ''-'' s))
      = (s = [] \<or> hd s = CHR ''-'' \<or> last s = CHR ''-'' \<or> doubled CHR ''-'' s))"
  by (simp add: logicalName_cases empty_field_iff)

theorem generateIamRoleResourceLogicalName_throws_witness:
  "generateIamRoleResourceLogicalName asciiUpper ''orders--dev'' ''createOrder'' ''function'' None
     = Inl TypeError
   \<and> generateIamRoleResourceLogicalName asciiUpper ''-orders'' ''createOrder'' ''function'' None
     = Inl TypeError
   \<and> generateIamRoleResourceLogicalName asciiUpper ''orders-'' ''createOrder'' ''function'' None
     = Inl TypeError
   \<and> generateIamRoleResourceLogicalName asciiUpper [] ''createOrder'' ''function'' None
     = Inl TypeError
   \<and> generateIamRoleResourceLogicalName asciiUpper ''orders'' [] ''function'' None
     = Inl TypeError
   \<and> generateIamRoleResourceLogicalName asciiUpper ''orders'' ''createOrder'' [] None
     = Inl TypeError
   \<and> (\<exists>l. generateIamRoleResourceLogicalName asciiUpper ''orders-dev'' ''createOrder''
            ''function'' None = Inr l)"
  using generateIamRoleResourceLogicalName_throws
          [of asciiUpper "''orders--dev''" "''createOrder''" "''function''" None]
        generateIamRoleResourceLogicalName_throws
          [of asciiUpper "''-orders''" "''createOrder''" "''function''" None]
        generateIamRoleResourceLogicalName_throws
          [of asciiUpper "''orders-''" "''createOrder''" "''function''" None]
        generateIamRoleResourceLogicalName_throws
          [of asciiUpper "[]" "''createOrder''" "''function''" None]
        generateIamRoleResourceLogicalName_throws
          [of asciiUpper "''orders''" "[]" "''function''" None]
        generateIamRoleResourceLogicalName_throws
          [of asciiUpper "''orders''" "''createOrder''" "[]" None]
        generateIamRoleResourceLogicalName_throws
          [of asciiUpper "''orders-dev''" "''createOrder''" "''function''" None]
  by simp

section \<open>Policy statements\<close>

text \<open>
  C5. For the type \<open>function\<close>, \<open>generatePolicyStatementsByType\<close> returns exactly one
  statement, which allows \<open>lambda:InvokeFunction\<close> on the ARN; the generator it calls
  returns two statements when it is given a (non-empty) log-group ARN, the second one on
  that ARN. For the type \<open>stateMachine\<close> it returns exactly three statements, and for
  every other type the empty list.
\<close>

theorem generatePolicyStatementsByType_counts:
  "generatePolicyStatementsByType a ''function''
     = [\<lparr> Effect = ''Allow'', Action = [''lambda:InvokeFunction''],
          Resource = Single (Arn a) \<rparr>]
   \<and> defaultLambdaFunctionPolicyStatements a None = generatePolicyStatementsByType a ''function''
   \<and> (l \<noteq> [] \<longrightarrow>
        defaultLambdaFunctionPolicyStatements a (Some l)
          = generatePolicyStatementsByType a ''function''
            @ [\<lparr> Effect = ''Allow'',
                 Action = [''logs:DescribeLogStreams'', ''logs:GetLogEvents''],
                 Resource = Single (Arn l) \<rparr>]
        \<and> length (defaultLambdaFunctionPolicyStatements a (Some l)) = 2)
   \<and> length (generatePolicyStatementsByType a ''stateMachine'') = 3
   \<and> (ty \<noteq> ''function'' \<and> ty \<noteq> ''stateMachine'' \<longrightarrow>
        generatePolicyStatementsByType a ty = [])"
  by (simp add: generatePolicyStatementsByType_def defaultLambdaFunctionPolicyStatements_def
        defaultStateMachinePolicyStatements_def Let_def)

theorem generatePolicyStatementsByType_counts_witness:
  "length (defaultLambdaFunctionPolicyStatements ''arn:aws:lambda:fn''
             (Some ''arn:aws:logs:group'')) = 2
   \<and> generatePolicyStatementsByType ''arn:aws:lambda:fn'' ''queue'' = []"
  using generatePolicyStatementsByType_counts
          [of "''arn:aws:lambda:fn''" "''arn:aws:logs:group''" "''queue''"]
  by simp

text \<open>
  C2 (the code differs). The name that \<open>defaultStateMachinePolicyStatements\<close> puts into
  the execution and express templates is the element at index \<open>-1\<close> of the split ARN.
  An array has no such element, so for every ARN the name is \<open>undefined\<close> and the
  templates hold the word \<open>undefined\<close> where the last segment of the ARN was meant.
\<close>

theorem defaultStateMachinePolicyStatements_name_undefined:
  "map Resource (defaultStateMachinePolicyStatements a)
     = [Single (Arn a),
        Multiple
          [FnSub ''arn:aws:states:${AWS::Region}:${AWS::AccountId}:execution:undefined:*'',
           FnSub ''arn:aws:states:${AWS::Region}:${AWS::AccountId}:express:undefined:*:*''],
        Single
          (FnSub ''arn:aws:states:${AWS::Region}:${AWS::AccountId}:execution:undefined:*'')]"
  by (simp add: defaultStateMachinePolicyStatements_def index_int_def interpolate_def)

theorem defaultStateMachinePolicyStatements_orderFlow:
  "last (js_split CHR '':'' ''arn:aws:states:us-east-1:123456789012:stateMachine:orderFlow'')
     = ''orderFlow''
   \<and> map Resource
        (generatePolicyStatementsByType
           ''arn:aws:states:us-east-1:123456789012:stateMachine:orderFlow'' ''stateMachine'')
     = [Single (Arn ''arn:aws:states:us-east-1:123456789012:stateMachine:orderFlow''),
        Multiple
          [FnSub ''arn:aws:states:${AWS::Region}:${AWS::AccountId}:execution:undefined:*'',
           FnSub ''arn:aws:states:${AWS::Region}:${AWS::AccountId}:express:undefined:*:*''],
        Single
          (FnSub ''arn:aws:states:${AWS::Region}:${AWS::AccountId}:execution:undefined:*'')]"
  by (simp add: generatePolicyStatementsByType_def defaultStateMachinePolicyStatements_def
        index_int_def interpolate_def)

section \<open>The role resource\<close>

text \<open>
  C6. For every stack name, name, principal and statement list (the empty list
  included), the resource built by \<open>generateAccessRoleResource\<close> has the role name
  \<open><stackName>-<name>\<close>, the description \<open>Access role to <name> of <stackName>\<close>, a trust
  policy whose one statement allows \<open>sts:AssumeRole\<close> to the principal
  \<open>arn:aws:sts::<principalAccountId>:assumed-role/<principalRoleName>/CognitoIdentityCredentials\<close>
  under the condition \<open>StringEquals\<close> \<open>sts:ExternalId\<close> = \<open>externalId\<close>, and exactly one
  inline policy, named \<open>EmbeddedInlinePolicy\<close>, whose statements are the given list.
\<close>

theorem generateAccessRoleResource_shape:
  "RoleName (Properties (generateAccessRoleResource s n p sts)) = s @ ''-'' @ n
   \<and> Description (Properties (generateAccessRoleResource s n p sts))
       = ''Access role to '' @ n @ '' of '' @ s
   \<and> Statement (AssumeRolePolicyDocument (Properties (generateAccessRoleResource s n p sts)))
       = \<lparr> Effect = ''Allow'', Action = [''sts:AssumeRole''],
           Principal = \<lparr> AWS = ''arn:aws:sts::'' @ principalAccountId p @ '':assumed-role/''
                               @ principalRoleName p @ ''/CognitoIdentityCredentials'' \<rparr>,
           Condition = \<lparr> StringEquals = [(''sts:ExternalId'', externalId p)] \<rparr> \<rparr>
   \<and> length (Policies (Properties (generateAccessRoleResource s n p sts))) = 1
   \<and> map PolicyName (Policies (Properties (generateAccessRoleResource s n p sts)))
       = [''EmbeddedInlinePolicy'']
   \<and> map (\<lambda>q. Statement (PolicyDocument q))
        (Policies (Properties (generateAccessRoleResource s n p sts))) = [sts]
   \<and> map (\<lambda>q. Statement (PolicyDocument q))
        (Policies (Properties (generateAccessRoleResource s n p []))) = [[]]
   \<and> Type (generateAccessRoleResource s n p sts) = ''AWS::IAM::Role''"
  by (simp add: generateAccessRoleResource_def)

section \<open>Resolving the role ARNs\<close>

lemma index_filter_0: "index (filter P xs) 0 = find P xs"
  by (induction xs) auto

lemma resolve_None:
  "(resolve outs r = None) = (Some (roleOutputKey r) \<notin> OutputKey ` set outs)"
proof (cases "find (\<lambda>output. OutputKey output = Some (roleOutputKey r)) outs")
  case None
  then have "\<forall>x\<in>set outs. OutputKey x \<noteq> Some (roleOutputKey r)"
    by (simp add: find_None_iff)
  then have "Some (roleOutputKey r) \<notin> OutputKey ` set outs" by force
  with None show ?thesis by (simp add: resolve_def)
next
  case (Some x)
  then have "x \<in> set outs \<and> OutputKey x = Some (roleOutputKey r)"
    by (auto simp: find_Some_iff)
  then have "Some (roleOutputKey r) \<in> OutputKey ` set outs" by force
  with Some show ?thesis by (simp add: resolve_def)
qed

lemma loop_Cons:
  "collectAccessRolesArn_loop outs ((k, r) # rest) acc =
     (case resolve outs r of
        None \<Rightarrow> Inl (Error (''Unable to find output: '' @ roleOutputKey r))
      | Some e \<Rightarrow> collectAccessRolesArn_loop outs rest
                   (assignResourceOutput acc (keyStack k) (keyName k) e))"
  by (simp add: index_filter_0 resolve_def keyStack_def keyName_def Let_def
        split: option.splits)

lemma loop_result:
  "collectAccessRolesArn_loop outs pending acc =
     (case find (\<lambda>(k, r). resolve outs r = None) pending of
        Some (k, r) \<Rightarrow> Inl (Error (''Unable to find output: '' @ roleOutputKey r))
      | None \<Rightarrow> Inr (foldl (\<lambda>a (k, r). assignResourceOutput a (keyStack k) (keyName k)
                                (the (resolve outs r))) acc pending))"
proof (induction pending arbitrary: acc)
  case Nil
  then show ?case by simp
next
  case (Cons p pending)
  obtain k r where p: "p = (k, r)" by (cases p)
  show ?case
    unfolding p loop_Cons using Cons.IH
    by (cases "resolve outs r") (simp_all split: option.splits)
qed

lemma getProperty_plain:
  assumes "plain m" and "s \<noteq> ''__proto__''"
  shows "getProperty m s =
     (case own m s of Some v \<Rightarrow> v
      | None \<Rightarrow> if s \<in> set objectPrototypeFunctions then Function else Undefined)"
  using assms by (simp add: getProperty_def plain_def split: option.splits)

lemma setProperty_plain:
  "s \<noteq> ''__proto__'' \<Longrightarrow> setProperty m s props = m\<lparr> own := (own m)(s \<mapsto> Object props) \<rparr>"
  by (simp add: setProperty_def)

lemma assign_plain:
  assumes pl: "plain m" and s: "s \<noteq> ''__proto__''"
  shows "assignResourceOutput m s n e =
     m\<lparr> own := (own m)(s \<mapsto>
          Object ((case own m s of Some (Object inner) \<Rightarrow> inner | _ \<Rightarrow> Map.empty)(n \<mapsto> Entry e))) \<rparr>"
proof (cases "own m s")
  case None
  have pl1: "plain (m\<lparr> own := (own m)(s \<mapsto> Object Map.empty) \<rparr>)"
    using pl by (auto simp: plain_def)
  show ?thesis
    using None s by (simp add: assignResourceOutput_def getProperty_plain[OF pl s] getProperty_plain[OF pl1 s]
          setProperty_plain truthy_def ownEnumerable_def Let_def)
next
  case (Some v)
  then obtain inner where v: "v = Object inner" using pl by (auto simp: plain_def)
  show ?thesis
    using Some v s by (simp add: assignResourceOutput_def getProperty_plain[OF pl s]
          setProperty_plain truthy_def ownEnumerable_def Let_def)
qed

lemma plain_assign:
  "plain m \<Longrightarrow> s \<noteq> ''__proto__'' \<Longrightarrow> plain (assignResourceOutput m s n e)"
  by (auto simp: assign_plain plain_def)

lemma entry_assign:
  "plain m \<Longrightarrow> s \<noteq> ''__proto__'' \<Longrightarrow>
   entry (assignResourceOutput m s n e) s' n' =
     (if s' = s \<and> n' = n then Some (Entry e) else entry m s' n')"
  by (auto simp: assign_plain entry_def plain_def split: option.splits Value.splits)

lemma dom_assign:
  "plain m \<Longrightarrow> s \<noteq> ''__proto__'' \<Longrightarrow>
   dom (own (assignResourceOutput m s n e)) = insert s (dom (own m))"
  by (auto simp: assign_plain)


lemma find_last_Some: "find_last P xs = Some x \<Longrightarrow> x \<in> set xs \<and> P x"
  by (induction xs) (auto split: option.splits if_splits)

lemma find_last_None: "(find_last P xs = None) = (\<forall>x\<in>set xs. \<not> P x)"
  by (induction xs) (auto split: option.splits)

lemma find_last_distinct:
  "distinct (map g xs) \<Longrightarrow> x \<in> set xs \<Longrightarrow> find_last (\<lambda>y. g y = g x) xs = Some x"
proof (induction xs)
  case Nil
  then show ?case by simp
next
  case (Cons y ys)
  show ?case
  proof (cases "x \<in> set ys")
    case True
    with Cons show ?thesis by simp
  next
    case False
    with Cons.prems have xy: "x = y" by simp
    have "g y \<notin> g ` set ys" using Cons.prems by simp
    then have "\<forall>z\<in>set ys. g z \<noteq> g x" using xy by (metis imageI)
    then have "find_last (\<lambda>z. g z = g x) ys = None"
      by (simp add: find_last_None)
    with xy show ?thesis by simp
  qed
qed

lemma find_split:
  "\<forall>x\<in>set pre. \<not> P x \<Longrightarrow> P x \<Longrightarrow> find P (pre @ x # post) = Some x"
  by (induction pre) auto

lemma entry_initial: "entry \<lparr> own = Map.empty, proto = None \<rparr> s n = None"
  by (simp add: entry_def)

lemma plain_initial: "plain \<lparr> own = Map.empty, proto = None \<rparr>"
  by (simp add: plain_def)

lemma foldl_plain:
  assumes "plain acc" and "\<forall>(k, r)\<in>set pending. keyStack k \<noteq> ''__proto__''"
  shows "plain (foldl (\<lambda>a (k, r). assignResourceOutput a (keyStack k) (keyName k) (f r)) acc pending)
   \<and> dom (own (foldl (\<lambda>a (k, r). assignResourceOutput a (keyStack k) (keyName k) (f r)) acc pending))
       = dom (own acc) \<union> keyStack ` fst ` set pending
   \<and> (\<forall>s n. entry (foldl (\<lambda>a (k, r). assignResourceOutput a (keyStack k) (keyName k) (f r)) acc pending) s n =
       (case find_last (\<lambda>(k, r). keyStack k = s \<and> keyName k = n) pending of
          Some (k, r) \<Rightarrow> Some (Entry (f r))
        | None \<Rightarrow> entry acc s n))"
  using assms
proof (induction pending arbitrary: acc)
  case Nil
  then show ?case by simp
next
  case (Cons p pending)
  obtain k r where p: "p = (k, r)" by (cases p)
  have k: "keyStack k \<noteq> ''__proto__''" using Cons.prems(2) p by simp
  have rest: "\<forall>(k, r)\<in>set pending. keyStack k \<noteq> ''__proto__''" using Cons.prems(2) by simp
  let ?acc = "assignResourceOutput acc (keyStack k) (keyName k) (f r)"
  have pl: "plain ?acc" using Cons.prems(1) k by (rule plain_assign)
  note IH = Cons.IH[OF pl rest]
  have e: "entry ?acc s n = (if s = keyStack k \<and> n = keyName k then Some (Entry (f r)) else entry acc s n)"
    for s n using Cons.prems(1) k by (rule entry_assign)
  have d: "dom (own ?acc) = insert (keyStack k) (dom (own acc))"
    using Cons.prems(1) k by (rule dom_assign)
  show ?case
    unfolding p using IH e d
    by (auto split: option.splits)
qed


text \<open>
  C1 (amended). \<open>collectAccessRolesArnFromStackOutputs\<close> runs through the pending
  resources in their order. At the first one whose \<open>roleOutputKey\<close> is the key of no
  output it throws the error \<open>Unable to find output: \<close> followed by that key and returns
  no manifest; the \<open>export\<close> hook then throws the same error and leaves the output file
  as it was. When every \<open>roleOutputKey\<close> is the key of an output it returns a manifest,
  which \<open>export\<close> writes. When moreover no pending key has the stack name \<open>__proto__\<close>,
  the manifest \<open>m\<close> keeps its prototype, its own properties are objects under the stack
  names of the pending keys, and under a stack and a name it holds an entry exactly when
  a pending key has that stack and that name: the entry is \<open>arn\<close>, \<open>description\<close> of the
  last such pending resource with, as \<open>role\<close>, the value of the first output whose key is
  its \<open>roleOutputKey\<close>. So when no two pending keys share stack and name, every pending
  resource has its own entry; otherwise the later resource replaces the earlier one.
\<close>

theorem collectAccessRolesArnFromStackOutputs_manifest:
  "(pending = pre @ (key, r) # post
      \<and> (\<forall>(k', r')\<in>set pre. Some (roleOutputKey r') \<in> OutputKey ` set stackOutputs)
      \<and> Some (roleOutputKey r) \<notin> OutputKey ` set stackOutputs
    \<longrightarrow> collectAccessRolesArnFromStackOutputs stackOutputs pending
          = Inl (Error (''Unable to find output: '' @ roleOutputKey r))
        \<and> export serviceName (Some stackOutputs) pending outFile
          = (Some (Error (''Unable to find output: '' @ roleOutputKey r)), outFile))
   \<and> ((\<forall>(k', r')\<in>set pending. Some (roleOutputKey r') \<in> OutputKey ` set stackOutputs)
    \<longrightarrow> (\<exists>m. collectAccessRolesArnFromStackOutputs stackOutputs pending = Inr m
          \<and> export serviceName (Some stackOutputs) pending outFile = (None, Some (own m))))
   \<and> ((\<forall>(k', r')\<in>set pending. Some (roleOutputKey r') \<in> OutputKey ` set stackOutputs)
      \<and> (\<forall>(k', r')\<in>set pending. keyStack k' \<noteq> ''__proto__'')
    \<longrightarrow> (\<exists>m. collectAccessRolesArnFromStackOutputs stackOutputs pending = Inr m
          \<and> proto m = None
          \<and> dom (own m) = keyStack ` fst ` set pending
          \<and> (\<forall>s\<in>dom (own m). \<exists>inner. own m s = Some (Object inner))
          \<and> (\<forall>s n. entry m s n =
                (case find_last (\<lambda>(k', r'). keyStack k' = s \<and> keyName k' = n) pending of
                   None \<Rightarrow> None
                 | Some (k', r') \<Rightarrow> map_option Entry (resolve stackOutputs r')))
          \<and> (\<forall>s n. (entry m s n \<noteq> None) =
                ((s, n) \<in> (\<lambda>(k', r'). (keyStack k', keyName k')) ` set pending))
          \<and> (distinct (map (\<lambda>(k', r'). (keyStack k', keyName k')) pending) \<longrightarrow>
                (\<forall>(k', r')\<in>set pending.
                   entry m (keyStack k') (keyName k') = map_option Entry (resolve stackOutputs r')
                   \<and> resolve stackOutputs r' \<noteq> None))))"
proof (intro conjI impI)
  assume a: "pending = pre @ (key, r) # post
      \<and> (\<forall>(k', r')\<in>set pre. Some (roleOutputKey r') \<in> OutputKey ` set stackOutputs)
      \<and> Some (roleOutputKey r) \<notin> OutputKey ` set stackOutputs"
  then have "find (\<lambda>(k, r). resolve stackOutputs r = None) pending = Some (key, r)"
    by (auto simp: resolve_None intro!: find_split)
  then show "collectAccessRolesArnFromStackOutputs stackOutputs pending
          = Inl (Error (''Unable to find output: '' @ roleOutputKey r))"
    by (simp add: collectAccessRolesArnFromStackOutputs_def loop_result)
next
  assume a: "pending = pre @ (key, r) # post
      \<and> (\<forall>(k', r')\<in>set pre. Some (roleOutputKey r') \<in> OutputKey ` set stackOutputs)
      \<and> Some (roleOutputKey r) \<notin> OutputKey ` set stackOutputs"
  then have "find (\<lambda>(k, r). resolve stackOutputs r = None) pending = Some (key, r)"
    by (auto simp: resolve_None intro!: find_split)
  then show "export serviceName (Some stackOutputs) pending outFile
          = (Some (Error (''Unable to find output: '' @ roleOutputKey r)), outFile)"
    by (simp add: export_def collectAccessRolesArnFromStackOutputs_def loop_result)
next
  assume a: "\<forall>(k', r')\<in>set pending. Some (roleOutputKey r') \<in> OutputKey ` set stackOutputs"
  then have "find (\<lambda>(k, r). resolve stackOutputs r = None) pending = None"
    by (auto simp: find_None_iff resolve_None)
  then show "\<exists>m. collectAccessRolesArnFromStackOutputs stackOutputs pending = Inr m
          \<and> export serviceName (Some stackOutputs) pending outFile = (None, Some (own m))"
    by (simp add: export_def collectAccessRolesArnFromStackOutputs_def loop_result)
next
  assume b: "(\<forall>(k', r')\<in>set pending. Some (roleOutputKey r') \<in> OutputKey ` set stackOutputs)
      \<and> (\<forall>(k', r')\<in>set pending. keyStack k' \<noteq> ''__proto__'')"
  then have a: "\<forall>(k', r')\<in>set pending. Some (roleOutputKey r') \<in> OutputKey ` set stackOutputs"
    and np: "\<forall>(k', r')\<in>set pending. keyStack k' \<noteq> ''__proto__''"
    by simp_all
  define m where "m = foldl (\<lambda>a (k, r). assignResourceOutput a (keyStack k) (keyName k)
                               (the (resolve stackOutputs r)))
                        \<lparr> own = Map.empty, proto = None \<rparr> pending"
  have res: "\<And>k' r'. (k', r') \<in> set pending \<Longrightarrow> resolve stackOutputs r' \<noteq> None"
    using a by (auto simp: resolve_None)
  then have "find (\<lambda>(k, r). resolve stackOutputs r = None) pending = None"
    by (auto simp: find_None_iff)
  then have 1: "collectAccessRolesArnFromStackOutputs stackOutputs pending = Inr m"
    by (simp add: collectAccessRolesArnFromStackOutputs_def loop_result m_def)
  note fold = foldl_plain[OF plain_initial np, of "\<lambda>r. the (resolve stackOutputs r)",
      folded m_def]
  have pl: "plain m" using fold by blast
  then have 0: "proto m = None" by (simp add: plain_def)
  have 2: "dom (own m) = keyStack ` fst ` set pending" using fold by simp
  have 6: "\<forall>s\<in>dom (own m). \<exists>inner. own m s = Some (Object inner)"
    using pl by (auto simp: plain_def)
  have 3: "entry m s n =
                (case find_last (\<lambda>(k', r'). keyStack k' = s \<and> keyName k' = n) pending of
                   None \<Rightarrow> None
                 | Some (k', r') \<Rightarrow> map_option Entry (resolve stackOutputs r'))" for s n
  proof (cases "find_last (\<lambda>(k', r'). keyStack k' = s \<and> keyName k' = n) pending")
    case None
    then show ?thesis using fold by (simp add: entry_initial)
  next
    case (Some p)
    obtain k' r' where p: "p = (k', r')" by (cases p)
    with Some have "(k', r') \<in> set pending" using find_last_Some by fastforce
    then have "resolve stackOutputs r' \<noteq> None" by (rule res)
    with Some p show ?thesis using fold by auto
  qed
  have 4: "(entry m s n \<noteq> None) =
                ((s, n) \<in> (\<lambda>(k', r'). (keyStack k', keyName k')) ` set pending)" for s n
  proof (cases "find_last (\<lambda>(k', r'). keyStack k' = s \<and> keyName k' = n) pending")
    case None
    then have "\<forall>x\<in>set pending. \<not> (\<lambda>(k', r'). keyStack k' = s \<and> keyName k' = n) x"
      by (simp add: find_last_None)
    then have "(s, n) \<notin> (\<lambda>(k', r'). (keyStack k', keyName k')) ` set pending"
      by force
    with None show ?thesis by (simp add: 3)
  next
    case (Some p)
    obtain k' r' where p: "p = (k', r')" by (cases p)
    with Some have in_p: "(k', r') \<in> set pending" and eq: "keyStack k' = s \<and> keyName k' = n"
      using find_last_Some[OF Some] by auto
    from in_p have "resolve stackOutputs r' \<noteq> None" by (rule res)
    moreover have "(s, n) \<in> (\<lambda>(k', r'). (keyStack k', keyName k')) ` set pending"
      using in_p eq by force
    ultimately show ?thesis using Some p by (auto simp: 3)
  qed
  have 5: "\<forall>(k', r')\<in>set pending.
             entry m (keyStack k') (keyName k') = map_option Entry (resolve stackOutputs r')
             \<and> resolve stackOutputs r' \<noteq> None"
    if d: "distinct (map (\<lambda>(k', r'). (keyStack k', keyName k')) pending)"
  proof (clarify, intro conjI)
    fix k' r' assume in_p: "(k', r') \<in> set pending"
    define g where "g = (\<lambda>(k, r::ResourceExport). (keyStack k, keyName k))"
    have "find_last (\<lambda>y. g y = g (k', r')) pending = Some (k', r')"
      using d in_p unfolding g_def by (rule find_last_distinct)
    moreover have "(\<lambda>y. g y = g (k', r'))
          = (\<lambda>(k, r). keyStack k = keyStack k' \<and> keyName k = keyName k')"
      by (auto simp: g_def)
    ultimately have "find_last (\<lambda>(k, r). keyStack k = keyStack k' \<and> keyName k = keyName k')
          pending = Some (k', r')"
      by (simp only:)
    then show "entry m (keyStack k') (keyName k') = map_option Entry (resolve stackOutputs r')"
      by (simp add: 3)
    show "resolve stackOutputs r' \<noteq> None" using in_p by (rule res)
  qed
  show "\<exists>m. collectAccessRolesArnFromStackOutputs stackOutputs pending = Inr m
          \<and> proto m = None
          \<and> dom (own m) = keyStack ` fst ` set pending
          \<and> (\<forall>s\<in>dom (own m). \<exists>inner. own m s = Some (Object inner))
          \<and> (\<forall>s n. entry m s n =
                (case find_last (\<lambda>(k', r'). keyStack k' = s \<and> keyName k' = n) pending of
                   None \<Rightarrow> None
                 | Some (k', r') \<Rightarrow> map_option Entry (resolve stackOutputs r')))
          \<and> (\<forall>s n. (entry m s n \<noteq> None) =
                ((s, n) \<in> (\<lambda>(k', r'). (keyStack k', keyName k')) ` set pending))
          \<and> (distinct (map (\<lambda>(k', r'). (keyStack k', keyName k')) pending) \<longrightarrow>
                (\<forall>(k', r')\<in>set pending.
                   entry m (keyStack k') (keyName k') = map_option Entry (resolve stackOutputs r')
                   \<and> resolve stackOutputs r' \<noteq> None))"
    using 0 1 2 3 4 5 6 by blast
qed


theorem collectAccessRolesArnFromStackOutputs_manifest_witness:
  "collectAccessRolesArnFromStackOutputs
     [\<lparr> OutputKey = Some ''OrdersCreateOrderFunctionAccessRoleArn'',
        OutputValue = Some ''arn:aws:iam::1:role/orders-createOrder'' \<rparr>]
     [(''orders:createOrder:function'',
       \<lparr> arn = ''arn:fn'', description = ''creates an order'',
         roleOutputKey = ''OrdersCreateOrderFunctionAccessRoleArn'' \<rparr>),
      (''orders:flow:stateMachine'',
       \<lparr> arn = ''arn:sm'', description = ''order flow'',
         roleOutputKey = ''OrdersFlowStateMachineAccessRoleArn'' \<rparr>)]
     = Inl (Error ''Unable to find output: OrdersFlowStateMachineAccessRoleArn'')
   \<and> (\<exists>m. collectAccessRolesArnFromStackOutputs
          [\<lparr> OutputKey = Some ''OrdersCreateOrderFunctionAccessRoleArn'',
             OutputValue = Some ''arn:aws:iam::1:role/orders-createOrder'' \<rparr>,
           \<lparr> OutputKey = Some ''OrdersFlowStateMachineAccessRoleArn'',
             OutputValue = Some ''arn:aws:iam::1:role/orders-flow'' \<rparr>]
          [(''orders:createOrder:function'',
            \<lparr> arn = ''arn:fn'', description = ''creates an order'',
              roleOutputKey = ''OrdersCreateOrderFunctionAccessRoleArn'' \<rparr>),
           (''orders:flow:stateMachine'',
            \<lparr> arn = ''arn:sm'', description = ''order flow'',
              roleOutputKey = ''OrdersFlowStateMachineAccessRoleArn'' \<rparr>)] = Inr m
        \<and> entry m ''orders'' ''createOrder''
            = Some (Entry \<lparr> arn = ''arn:fn'', description = ''creates an order'',
                     role = Some ''arn:aws:iam::1:role/orders-createOrder'' \<rparr>)
        \<and> entry m ''orders'' ''flow''
            = Some (Entry \<lparr> arn = ''arn:sm'', description = ''order flow'',
                     role = Some ''arn:aws:iam::1:role/orders-flow'' \<rparr>))"
proof -
  let ?o1 = "\<lparr> OutputKey = Some ''OrdersCreateOrderFunctionAccessRoleArn'',
               OutputValue = Some ''arn:aws:iam::1:role/orders-createOrder'' \<rparr>"
  let ?o2 = "\<lparr> OutputKey = Some ''OrdersFlowStateMachineAccessRoleArn'',
               OutputValue = Some ''arn:aws:iam::1:role/orders-flow'' \<rparr>"
  let ?r1 = "\<lparr> arn = ''arn:fn'', description = ''creates an order'',
               roleOutputKey = ''OrdersCreateOrderFunctionAccessRoleArn'' \<rparr>"
  let ?r2 = "\<lparr> arn = ''arn:sm'', description = ''order flow'',
               roleOutputKey = ''OrdersFlowStateMachineAccessRoleArn'' \<rparr>"
  let ?pending = "[(''orders:createOrder:function'', ?r1), (''orders:flow:stateMachine'', ?r2)]"
  have ks: "keyStack ''orders:createOrder:function'' = ''orders''"
           "keyName ''orders:createOrder:function'' = ''createOrder''"
           "keyStack ''orders:flow:stateMachine'' = ''orders''"
           "keyName ''orders:flow:stateMachine'' = ''flow''"
    by (simp_all add: keyStack_def keyName_def interpolate_def)
  have missing: "collectAccessRolesArnFromStackOutputs [?o1] ?pending
      = Inl (Error ''Unable to find output: OrdersFlowStateMachineAccessRoleArn'')"
    using collectAccessRolesArnFromStackOutputs_manifest
            [where pending = ?pending and pre = "[(''orders:createOrder:function'', ?r1)]"
               and key = "''orders:flow:stateMachine''" and r = ?r2 and post = "[]"
               and stackOutputs = "[?o1]"]
    by simp
  have present: "(\<forall>(k', r')\<in>set ?pending.
        Some (roleOutputKey r') \<in> OutputKey ` set [?o1, ?o2])
      \<and> (\<forall>(k', r')\<in>set ?pending. keyStack k' \<noteq> ''__proto__'')"
    by (simp add: ks)
  obtain m where m: "collectAccessRolesArnFromStackOutputs [?o1, ?o2] ?pending = Inr m"
    and e: "\<forall>s n. entry m s n =
                (case find_last (\<lambda>(k', r'). keyStack k' = s \<and> keyName k' = n) ?pending of
                   None \<Rightarrow> None
                 | Some (k', r') \<Rightarrow> map_option Entry (resolve [?o1, ?o2] r'))"
    using collectAccessRolesArnFromStackOutputs_manifest
            [where pending = ?pending and stackOutputs = "[?o1, ?o2]",
             THEN conjunct2, THEN conjunct2, THEN mp, OF present]
    by blast
  have "entry m ''orders'' ''createOrder''
            = Some (Entry \<lparr> arn = ''arn:fn'', description = ''creates an order'',
                     role = Some ''arn:aws:iam::1:role/orders-createOrder'' \<rparr>)"
    using e by (simp add: ks resolve_def)
  moreover have "entry m ''orders'' ''flow''
            = Some (Entry \<lparr> arn = ''arn:sm'', description = ''order flow'',
                     role = Some ''arn:aws:iam::1:role/orders-flow'' \<rparr>)"
    using e by (simp add: ks resolve_def)
  ultimately show ?thesis using missing m by blast
qed

text \<open>
  C1 as stated fails: the pending key \<open>__proto__:flow:function\<close> has its output, yet the
  assignment to \<open>resourceOutputs['__proto__']\<close> sets the prototype of the manifest, which
  gets no own property, and \<open>export\<close> writes an empty object.
\<close>

theorem collectAccessRolesArnFromStackOutputs_proto_counterexample:
  "OutputKey \<lparr> OutputKey = Some ''ProtoFlowFunctionAccessRoleArn'',
               OutputValue = Some ''arn:aws:iam::1:role/flow'' \<rparr>
     = Some (roleOutputKey \<lparr> arn = ''arn:fn'', description = ''flow'',
                             roleOutputKey = ''ProtoFlowFunctionAccessRoleArn'' \<rparr>)
   \<and> collectAccessRolesArnFromStackOutputs
       [\<lparr> OutputKey = Some ''ProtoFlowFunctionAccessRoleArn'',
          OutputValue = Some ''arn:aws:iam::1:role/flow'' \<rparr>]
       [(''__proto__:flow:function'',
         \<lparr> arn = ''arn:fn'', description = ''flow'',
           roleOutputKey = ''ProtoFlowFunctionAccessRoleArn'' \<rparr>)]
     = Inr \<lparr> own = Map.empty,
             proto = Some [''flow'' \<mapsto> Entry \<lparr> arn = ''arn:fn'', description = ''flow'',
                                              role = Some ''arn:aws:iam::1:role/flow'' \<rparr>] \<rparr>
   \<and> export ''orders''
       (Some [\<lparr> OutputKey = Some ''ProtoFlowFunctionAccessRoleArn'',
                OutputValue = Some ''arn:aws:iam::1:role/flow'' \<rparr>])
       [(''__proto__:flow:function'',
         \<lparr> arn = ''arn:fn'', description = ''flow'',
           roleOutputKey = ''ProtoFlowFunctionAccessRoleArn'' \<rparr>)]
       None
     = (None, Some Map.empty)"
  by (simp add: export_def collectAccessRolesArnFromStackOutputs_def assignResourceOutput_def
        getProperty_def setProperty_def truthy_def ownEnumerable_def interpolate_def Let_def)

section \<open>Collecting exports\<close>

lemma map_of_collectExport:
  "map_of (collectExport p rs e) =
     (if matchesPrefix p e then
        (let k = exportKey e;
             r0 = (case map_of rs k of None \<Rightarrow> emptyResource | Some r \<Rightarrow> r);
             r1 = (if exportField e = Some ''arn'' then r0\<lparr> arn := Value e \<rparr> else r0);
             r2 = (if exportField e = Some ''description'' then r1\<lparr> description := Value e \<rparr> else r1)
         in (map_of rs)(k \<mapsto> r2))
      else map_of rs)"
  by (auto simp: collectExport_def matchesPrefix_def exportKey_def exportField_def emptyResource_def
       Let_def update_conv' map_of_map_entry fun_eq_iff split: option.splits)

lemma collect_snoc:
  "collectResourceExportsByPrefix p (xs @ [e]) = collectExport p (collectResourceExportsByPrefix p xs) e"
  by (simp add: collectResourceExportsByPrefix_def)

lemma find_last_snoc:
  "find_last P (xs @ [x]) = (if P x then Some x else find_last P xs)"
  by (induction xs) (auto split: option.splits)

lemma lastValue_absent:
  "\<not> (\<exists>e\<in>set xs. matchesPrefix p e \<and> exportKey e = k) \<Longrightarrow> lastValue p k f xs = []"
proof -
  assume "\<not> (\<exists>e\<in>set xs. matchesPrefix p e \<and> exportKey e = k)"
  then have "find_last (\<lambda>e. matchesPrefix p e \<and> exportKey e = k \<and> exportField e = Some f) xs = None"
    by (auto simp: find_last_None)
  then show ?thesis by (simp add: lastValue_def)
qed

lemma lastValue_snoc:
  "lastValue p k f (xs @ [e]) =
     (if matchesPrefix p e \<and> exportKey e = k \<and> exportField e = Some f then Value e
      else lastValue p k f xs)"
  by (simp add: lastValue_def find_last_snoc)

lemma map_of_collect:
  "map_of (collectResourceExportsByPrefix p xs) k =
     (if \<exists>e\<in>set xs. matchesPrefix p e \<and> exportKey e = k
      then Some \<lparr> arn = lastValue p k ''arn'' xs,
                  description = lastValue p k ''description'' xs,
                  roleOutputKey = [] \<rparr>
      else None)"
proof (induction xs rule: rev_induct)
  case Nil
  then show ?case by (simp add: collectResourceExportsByPrefix_def)
next
  case (snoc e xs)
  show ?case
  proof (cases "matchesPrefix p e \<and> exportKey e = k")
    case False
    then show ?thesis
      unfolding collect_snoc map_of_collectExport using snoc.IH
      by (auto simp: lastValue_snoc Let_def)
  next
    case True
    have r0: "(case map_of (collectResourceExportsByPrefix p xs) k of
                 None \<Rightarrow> emptyResource | Some r \<Rightarrow> r)
              = \<lparr> arn = lastValue p k ''arn'' xs,
                  description = lastValue p k ''description'' xs,
                  roleOutputKey = [] \<rparr>"
      using snoc.IH by (simp add: emptyResource_def lastValue_absent)
    show ?thesis
      unfolding collect_snoc map_of_collectExport using True r0
      by (simp add: lastValue_snoc Let_def)
  qed
qed


lemma collectExport_other_prefix: "\<not> matchesPrefix p e \<Longrightarrow> collectExport p rs e = rs"
  by (simp add: collectExport_def matchesPrefix_def Let_def)

lemma collect_append_Cons:
  "collectResourceExportsByPrefix p (xs @ e # ys) =
     foldl (collectExport p) (collectExport p (collectResourceExportsByPrefix p xs) e) ys"
  by (simp add: collectResourceExportsByPrefix_def)

lemma collect_append:
  "collectResourceExportsByPrefix p (xs @ ys) =
     foldl (collectExport p) (collectResourceExportsByPrefix p xs) ys"
  by (simp add: collectResourceExportsByPrefix_def)

lemma find_last_skip: "\<not> P e \<Longrightarrow> find_last P (xs @ e # ys) = find_last P (xs @ ys)"
  by (induction xs) (auto split: option.splits)

lemma lastValue_skip:
  "\<not> (matchesPrefix p e \<and> exportKey e = k \<and> exportField e = Some f) \<Longrightarrow>
   lastValue p k f (xs @ e # ys) = lastValue p k f (xs @ ys)"
  by (simp add: lastValue_def find_last_skip)

lemma example_exports:
  "matchesPrefix ''aser'' \<lparr> ExportingStackId = i, Name = ''aser:orders:createOrder:function:arn'', Value = v \<rparr>"
  "matchesPrefix ''aser'' \<lparr> ExportingStackId = i, Name = ''aser:orders:createOrder:function:description'', Value = v \<rparr>"
  "matchesPrefix ''aser'' \<lparr> ExportingStackId = i, Name = ''aser:orders:createOrder:function:url'', Value = v \<rparr>"
  "\<not> matchesPrefix ''aser'' \<lparr> ExportingStackId = i, Name = ''other:orders:createOrder:function:arn'', Value = v \<rparr>"
  "exportField \<lparr> ExportingStackId = i, Name = ''aser:orders:createOrder:function:arn'', Value = v \<rparr> = Some ''arn''"
  "exportField \<lparr> ExportingStackId = i, Name = ''aser:orders:createOrder:function:description'', Value = v \<rparr> = Some ''description''"
  "exportField \<lparr> ExportingStackId = i, Name = ''aser:orders:createOrder:function:url'', Value = v \<rparr> = Some ''url''"
  "exportKey \<lparr> ExportingStackId = i, Name = ''aser:orders:createOrder:function:arn'', Value = v \<rparr> = ''orders:createOrder:function''"
  "exportKey \<lparr> ExportingStackId = i, Name = ''aser:orders:createOrder:function:description'', Value = v \<rparr> = ''orders:createOrder:function''"
  "exportKey \<lparr> ExportingStackId = i, Name = ''aser:orders:createOrder:function:url'', Value = v \<rparr> = ''orders:createOrder:function''"
  "exportTriple \<lparr> ExportingStackId = i, Name = ''aser:orders:createOrder:function:arn'', Value = v \<rparr> = (Some ''orders'', Some ''createOrder'', Some ''function'')"
  "exportTriple \<lparr> ExportingStackId = i, Name = ''aser:orders:createOrder:function:description'', Value = v \<rparr> = (Some ''orders'', Some ''createOrder'', Some ''function'')"
  by (simp_all add: matchesPrefix_def exportField_def exportKey_def exportTriple_def splitExportName_def
        resourceExportKey_def interpolate_def Let_def eval_nat_numeral)

text \<open>
  C3 (amended). An export whose decoded prefix is not the configured prefix is ignored:
  the result is that of the list without it. An export with the configured prefix whose
  decoded field is neither \<open>arn\<close> nor \<open>description\<close> sets no field, but it is not
  ignored: it creates the entry of its key. The resulting map is the map of the list
  without it when another export with the configured prefix has the same key, and that
  map with one more entry, empty, under its key otherwise.
\<close>

theorem collectResourceExportsByPrefix_ignored:
  "(\<not> matchesPrefix p e \<longrightarrow>
      collectResourceExportsByPrefix p (xs @ e # ys) = collectResourceExportsByPrefix p (xs @ ys))
   \<and> (matchesPrefix p e \<and> exportField e \<noteq> Some ''arn'' \<and> exportField e \<noteq> Some ''description'' \<longrightarrow>
      map_of (collectResourceExportsByPrefix p (xs @ e # ys)) =
        (if \<exists>e'\<in>set (xs @ ys). matchesPrefix p e' \<and> exportKey e' = exportKey e
         then map_of (collectResourceExportsByPrefix p (xs @ ys))
         else (map_of (collectResourceExportsByPrefix p (xs @ ys)))(exportKey e \<mapsto> emptyResource)))"
proof (intro conjI impI)
  assume "\<not> matchesPrefix p e"
  then show "collectResourceExportsByPrefix p (xs @ e # ys) = collectResourceExportsByPrefix p (xs @ ys)"
    by (simp add: collect_append_Cons collect_append collectExport_other_prefix)
next
  assume a: "matchesPrefix p e \<and> exportField e \<noteq> Some ''arn'' \<and> exportField e \<noteq> Some ''description''"
  have skip: "lastValue p k f (xs @ e # ys) = lastValue p k f (xs @ ys)"
    if "f = ''arn'' \<or> f = ''description''" for k f
    using a that by (intro lastValue_skip) auto
  show "map_of (collectResourceExportsByPrefix p (xs @ e # ys)) =
        (if \<exists>e'\<in>set (xs @ ys). matchesPrefix p e' \<and> exportKey e' = exportKey e
         then map_of (collectResourceExportsByPrefix p (xs @ ys))
         else (map_of (collectResourceExportsByPrefix p (xs @ ys)))(exportKey e \<mapsto> emptyResource))"
  proof (rule ext)
    fix k
    show "map_of (collectResourceExportsByPrefix p (xs @ e # ys)) k =
        (if \<exists>e'\<in>set (xs @ ys). matchesPrefix p e' \<and> exportKey e' = exportKey e
         then map_of (collectResourceExportsByPrefix p (xs @ ys))
         else (map_of (collectResourceExportsByPrefix p (xs @ ys)))(exportKey e \<mapsto> emptyResource)) k"
    proof (cases "k = exportKey e")
      case False
      then show ?thesis using a by (auto simp: map_of_collect skip)
    next
      case True
      show ?thesis
      proof (cases "\<exists>e'\<in>set (xs @ ys). matchesPrefix p e' \<and> exportKey e' = exportKey e")
        case ex: True
        then show ?thesis using a True by (auto simp: map_of_collect skip)
      next
        case nex: False
        then have "lastValue p k f (xs @ ys) = []" for f
          using True lastValue_absent[of "xs @ ys" p k f] by simp
        then show ?thesis using a True nex
          by (simp add: map_of_collect skip emptyResource_def)
      qed
    qed
  qed
qed


theorem collectResourceExportsByPrefix_ignored_witness:
  "collectResourceExportsByPrefix ''aser''
     ([\<lparr> ExportingStackId = ''s1'', Name = ''aser:orders:createOrder:function:arn'', Value = ''arn:fn'' \<rparr>]
      @ \<lparr> ExportingStackId = ''s2'', Name = ''other:orders:createOrder:function:arn'', Value = ''arn:x'' \<rparr> # [])
   = collectResourceExportsByPrefix ''aser''
     ([\<lparr> ExportingStackId = ''s1'', Name = ''aser:orders:createOrder:function:arn'', Value = ''arn:fn'' \<rparr>] @ [])
   \<and> map_of (collectResourceExportsByPrefix ''aser''
     ([\<lparr> ExportingStackId = ''s1'', Name = ''aser:orders:createOrder:function:arn'', Value = ''arn:fn'' \<rparr>]
      @ \<lparr> ExportingStackId = ''s1'', Name = ''aser:orders:createOrder:function:url'', Value = ''https://x'' \<rparr> # []))
   = map_of (collectResourceExportsByPrefix ''aser''
     ([\<lparr> ExportingStackId = ''s1'', Name = ''aser:orders:createOrder:function:arn'', Value = ''arn:fn'' \<rparr>] @ []))
   \<and> map_of (collectResourceExportsByPrefix ''aser''
     ([] @ \<lparr> ExportingStackId = ''s1'', Name = ''aser:orders:createOrder:function:url'', Value = ''https://x'' \<rparr> # []))
   = (map_of (collectResourceExportsByPrefix ''aser'' ([] @ [])))(''orders:createOrder:function'' \<mapsto> emptyResource)"
  using collectResourceExportsByPrefix_ignored
          [of "''aser''"
              "\<lparr> ExportingStackId = ''s2'', Name = ''other:orders:createOrder:function:arn'', Value = ''arn:x'' \<rparr>"
              "[\<lparr> ExportingStackId = ''s1'', Name = ''aser:orders:createOrder:function:arn'', Value = ''arn:fn'' \<rparr>]"
              "[]"]
        collectResourceExportsByPrefix_ignored
          [of "''aser''"
              "\<lparr> ExportingStackId = ''s1'', Name = ''aser:orders:createOrder:function:url'', Value = ''https://x'' \<rparr>"
              "[\<lparr> ExportingStackId = ''s1'', Name = ''aser:orders:createOrder:function:arn'', Value = ''arn:fn'' \<rparr>]"
              "[]"]
        collectResourceExportsByPrefix_ignored
          [of "''aser''"
              "\<lparr> ExportingStackId = ''s1'', Name = ''aser:orders:createOrder:function:url'', Value = ''https://x'' \<rparr>"
              "[]" "[]"]
  by (simp add: example_exports)

text \<open>
  C3 as stated fails: the single export \<open>aser:orders:createOrder:function:url\<close> has the
  configured prefix and the field \<open>url\<close>; with it the map has an entry, without it the
  map is empty.
\<close>

theorem collectResourceExportsByPrefix_other_field_counterexample:
  "prefix (splitExportName ''aser:orders:createOrder:function:url'') = Some ''aser''
   \<and> resource (splitExportName ''aser:orders:createOrder:function:url'') = Some ''url''
   \<and> collectResourceExportsByPrefix ''aser''
        [\<lparr> ExportingStackId = ''s1'', Name = ''aser:orders:createOrder:function:url'',
           Value = ''https://x'' \<rparr>]
       = [(''orders:createOrder:function'', \<lparr> arn = [], description = [], roleOutputKey = [] \<rparr>)]
   \<and> collectResourceExportsByPrefix ''aser'' [] = []
   \<and> map_of (collectResourceExportsByPrefix ''aser''
        [\<lparr> ExportingStackId = ''s1'', Name = ''aser:orders:createOrder:function:url'',
           Value = ''https://x'' \<rparr>])
       \<noteq> map_of (collectResourceExportsByPrefix ''aser'' [])"
  by (simp add: collectResourceExportsByPrefix_def collectExport_def splitExportName_def
        resourceExportKey_def interpolate_def Let_def eval_nat_numeral)

lemma list5: "length l = 5 \<Longrightarrow> \<exists>a b c d f. l = [a, b, c, d, f]"
  by (auto simp: eval_nat_numeral length_Suc_conv)

lemma tripleOfKey_exportKey:
  assumes "length (js_split CHR '':'' (Name e)) = 5"
  shows "exportTriple e = tripleOfKey (exportKey e)"
proof -
  obtain a b c d f where l: "js_split CHR '':'' (Name e) = [a, b, c, d, f]"
    using list5[OF assms] by blast
  have "\<forall>w\<in>set (js_split CHR '':'' (Name e)). CHR '':'' \<notin> set w"
    using js_split_fields_no_sep by blast
  then have ns: "CHR '':'' \<notin> set b" "CHR '':'' \<notin> set c" "CHR '':'' \<notin> set d"
    unfolding l by simp_all
  have t: "exportTriple e = (Some b, Some c, Some d)"
    by (simp add: exportTriple_def splitExportName_def l Let_def eval_nat_numeral)
  have k: "exportKey e = b @ CHR '':'' # c @ CHR '':'' # d"
    by (simp add: exportKey_def splitExportName_def l Let_def resourceExportKey_def interpolate_def
          eval_nat_numeral)
  have "js_split CHR '':'' (exportKey e) = [b, c, d]"
    unfolding k using ns by (simp add: js_split_field js_split_no_sep)
  then show ?thesis by (simp add: tripleOfKey_def t eval_nat_numeral)
qed

lemma exportKey_exportTriple:
  "exportKey e = (\<lambda>(s, n, t). resourceExportKey s n t) (exportTriple e)"
  by (simp add: exportKey_def exportTriple_def Let_def)

lemma find_last_filter:
  "find_last P xs = (if filter P xs = [] then None else Some (last (filter P xs)))"
  by (induction xs) auto

lemma short_mset_eq: "length as \<le> 1 \<Longrightarrow> mset bs = mset as \<Longrightarrow> bs = as"
proof -
  assume l: "length as \<le> 1" and m: "mset bs = mset as"
  then have "length bs = length as" by (metis size_mset)
  with l m show ?thesis
    by (cases as; cases bs) auto
qed

lemma constant_distinct_short:
  "distinct (map h zs) \<Longrightarrow> \<forall>z\<in>set zs. h z = c \<Longrightarrow> length zs \<le> 1"
  by (cases zs; cases "tl zs") auto


lemma distinct_collectExport:
  "distinct (map fst rs) \<Longrightarrow> distinct (map fst (collectExport p rs e))"
  by (simp add: collectExport_def Let_def distinct_update distinct_map_entry)

lemma distinct_collect: "distinct (map fst (collectResourceExportsByPrefix p xs))"
  by (induction xs rule: rev_induct)
     (simp_all add: collect_snoc distinct_collectExport, simp add: collectResourceExportsByPrefix_def)

lemma dom_collect:
  "dom (map_of (collectResourceExportsByPrefix p xs)) = exportKey ` {e \<in> set xs. matchesPrefix p e}"
  by (auto simp: dom_def map_of_collect)

text \<open>
  C8. Take a list of exports whose names have five fields and the configured prefix.
  The result has one property for each distinct triple of stack name, resource name and
  resource type, under the key built from the triple, and distinct triples have distinct
  keys. If moreover no two \<open>arn\<close> exports and no two \<open>description\<close> exports of the list
  belong to the same triple, then every permutation of the list gives the same map, and
  the entry of a triple holds the value of its \<open>arn\<close> export and of its \<open>description\<close>
  export.
\<close>

theorem collectResourceExportsByPrefix_permutation:
  assumes wf: "\<forall>e\<in>set xs. length (js_split CHR '':'' (Name e)) = 5 \<and> matchesPrefix p e"
  shows "distinct (map fst (collectResourceExportsByPrefix p xs))
       \<and> dom (map_of (collectResourceExportsByPrefix p xs))
           = (\<lambda>(s, n, t). resourceExportKey s n t) ` exportTriple ` set xs
       \<and> inj_on (\<lambda>(s, n, t). resourceExportKey s n t) (exportTriple ` set xs)
       \<and> length (collectResourceExportsByPrefix p xs) = card (exportTriple ` set xs)
       \<and> (distinct (map (\<lambda>e. (exportTriple e, exportField e))
                   (filter (\<lambda>e. exportField e = Some ''arn'' \<or> exportField e = Some ''description'')
                      xs)) \<longrightarrow>
            (mset ys = mset xs \<longrightarrow>
               map_of (collectResourceExportsByPrefix p ys)
                 = map_of (collectResourceExportsByPrefix p xs))
          \<and> (\<forall>e\<in>set xs. exportField e = Some ''arn'' \<longrightarrow>
               (\<exists>r. map_of (collectResourceExportsByPrefix p xs) (exportKey e) = Some r
                    \<and> arn r = Value e))
          \<and> (\<forall>e\<in>set xs. exportField e = Some ''description'' \<longrightarrow>
               (\<exists>r. map_of (collectResourceExportsByPrefix p xs) (exportKey e) = Some r
                    \<and> description r = Value e)))"
proof -
  let ?P = "\<lambda>k f e. matchesPrefix p e \<and> exportKey e = k \<and> exportField e = Some f"
  let ?Q = "\<lambda>e. exportField e = Some ''arn'' \<or> exportField e = Some ''description''"
  let ?h = "\<lambda>e. (exportTriple e, exportField e)"
  let ?enc = "\<lambda>(s, n, t). resourceExportKey s n t"
  have triple: "exportTriple e = tripleOfKey (exportKey e)" if "e \<in> set xs" for e
    using wf that by (simp add: tripleOfKey_exportKey)
  have 2: "distinct (map fst (collectResourceExportsByPrefix p xs))" by (rule distinct_collect)
  have "{e \<in> set xs. matchesPrefix p e} = set xs" using wf by auto
  then have 3: "dom (map_of (collectResourceExportsByPrefix p xs)) = ?enc ` exportTriple ` set xs"
    by (simp add: dom_collect image_image exportKey_exportTriple[symmetric])
  have 4: "inj_on ?enc (exportTriple ` set xs)"
  proof (rule inj_on_inverseI[where g = tripleOfKey])
    fix tr assume "tr \<in> exportTriple ` set xs"
    then obtain e where e: "e \<in> set xs" and tr: "tr = exportTriple e" by blast
    show "tripleOfKey (?enc tr) = tr"
      unfolding tr using triple[OF e] by (simp add: exportKey_exportTriple)
  qed
  have "length (collectResourceExportsByPrefix p xs)
      = card (dom (map_of (collectResourceExportsByPrefix p xs)))"
    using distinct_card[OF 2] by (simp add: dom_map_of_conv_image_fst)
  then have 5: "length (collectResourceExportsByPrefix p xs) = card (exportTriple ` set xs)"
    using 3 4 by (simp add: card_image)
  have rest: "(mset ys = mset xs \<longrightarrow>
               map_of (collectResourceExportsByPrefix p ys)
                 = map_of (collectResourceExportsByPrefix p xs))
          \<and> (\<forall>e\<in>set xs. exportField e = Some ''arn'' \<longrightarrow>
               (\<exists>r. map_of (collectResourceExportsByPrefix p xs) (exportKey e) = Some r
                    \<and> arn r = Value e))
          \<and> (\<forall>e\<in>set xs. exportField e = Some ''description'' \<longrightarrow>
               (\<exists>r. map_of (collectResourceExportsByPrefix p xs) (exportKey e) = Some r
                    \<and> description r = Value e))"
    if once: "distinct (map ?h (filter ?Q xs))"
  proof -
    have short: "length (filter (?P k f) xs) \<le> 1"
      if f: "f = ''arn'' \<or> f = ''description''" for k f
    proof -
      have "filter (?P k f) xs = filter (?P k f) (filter ?Q xs)"
        using f by (auto intro: filter_cong)
      moreover have "distinct (map ?h (filter (?P k f) (filter ?Q xs)))"
        using once by (rule distinct_map_filter)
      ultimately have d: "distinct (map ?h (filter (?P k f) xs))" by simp
      have "\<forall>z\<in>set (filter (?P k f) xs). ?h z = (tripleOfKey k, Some f)"
        using triple by auto
      with d show ?thesis by (rule constant_distinct_short)
    qed
    have 1: "map_of (collectResourceExportsByPrefix p ys)
        = map_of (collectResourceExportsByPrefix p xs)" if perm: "mset ys = mset xs"
    proof -
      have set_eq: "set ys = set xs" using perm by (rule mset_eq_setD)
      have same_filter: "filter (?P k f) ys = filter (?P k f) xs"
        if f: "f = ''arn'' \<or> f = ''description''" for k f
      proof -
        have "mset (filter (?P k f) ys) = mset (filter (?P k f) xs)"
          using perm by (simp only: mset_filter)
        with short[OF f] show ?thesis by (rule short_mset_eq)
      qed
      have same_last: "lastValue p k f ys = lastValue p k f xs"
        if f: "f = ''arn'' \<or> f = ''description''" for k f
        using same_filter[OF f, of k] by (simp add: lastValue_def find_last_filter)
      show ?thesis
        by (rule ext) (simp add: map_of_collect set_eq same_last)
    qed
    have value_of: "lastValue p (exportKey e) f xs = Value e"
      if e: "e \<in> set xs" and fe: "exportField e = Some f"
        and f: "f = ''arn'' \<or> f = ''description''"
      for e f
    proof -
      have "e \<in> set (filter (?P (exportKey e) f) xs)" using e fe wf by simp
      moreover have "length (filter (?P (exportKey e) f) xs) \<le> 1" using f by (rule short)
      ultimately have "filter (?P (exportKey e) f) xs = [e]"
        by (cases "filter (?P (exportKey e) f) xs") auto
      then show ?thesis by (simp add: lastValue_def find_last_filter)
    qed
    have 6: "\<forall>e\<in>set xs. exportField e = Some ''arn'' \<longrightarrow>
              (\<exists>r. map_of (collectResourceExportsByPrefix p xs) (exportKey e) = Some r
                   \<and> arn r = Value e)"
      using wf value_of by (auto simp: map_of_collect)
    have 7: "\<forall>e\<in>set xs. exportField e = Some ''description'' \<longrightarrow>
              (\<exists>r. map_of (collectResourceExportsByPrefix p xs) (exportKey e) = Some r
                   \<and> description r = Value e)"
      using wf value_of by (auto simp: map_of_collect)
    from 1 6 7 show ?thesis by blast
  qed
  from 2 3 4 5 rest show ?thesis by blast
qed

theorem collectResourceExportsByPrefix_permutation_witness:
  "mset [\<lparr> ExportingStackId = ''s1'', Name = ''aser:orders:createOrder:function:description'', Value = ''creates an order'' \<rparr>,
         \<lparr> ExportingStackId = ''s1'', Name = ''aser:orders:createOrder:function:arn'', Value = ''arn:fn'' \<rparr>]
   = mset [\<lparr> ExportingStackId = ''s1'', Name = ''aser:orders:createOrder:function:arn'', Value = ''arn:fn'' \<rparr>,
           \<lparr> ExportingStackId = ''s1'', Name = ''aser:orders:createOrder:function:description'', Value = ''creates an order'' \<rparr>]
   \<and> map_of (collectResourceExportsByPrefix ''aser''
        [\<lparr> ExportingStackId = ''s1'', Name = ''aser:orders:createOrder:function:description'', Value = ''creates an order'' \<rparr>,
         \<lparr> ExportingStackId = ''s1'', Name = ''aser:orders:createOrder:function:arn'', Value = ''arn:fn'' \<rparr>])
     = map_of (collectResourceExportsByPrefix ''aser''
        [\<lparr> ExportingStackId = ''s1'', Name = ''aser:orders:createOrder:function:arn'', Value = ''arn:fn'' \<rparr>,
         \<lparr> ExportingStackId = ''s1'', Name = ''aser:orders:createOrder:function:description'', Value = ''creates an order'' \<rparr>])
   \<and> length (collectResourceExportsByPrefix ''aser''
        [\<lparr> ExportingStackId = ''s1'', Name = ''aser:orders:createOrder:function:arn'', Value = ''arn:fn'' \<rparr>,
         \<lparr> ExportingStackId = ''s1'', Name = ''aser:orders:createOrder:function:description'', Value = ''creates an order'' \<rparr>]) = 1
   \<and> length (collectResourceExportsByPrefix ''aser''
        [\<lparr> ExportingStackId = ''s1'', Name = ''aser:orders:createOrder:function:arn'', Value = ''arn:fn'' \<rparr>,
         \<lparr> ExportingStackId = ''s2'', Name = ''aser:orders:createOrder:function:arn'', Value = ''arn:other'' \<rparr>]) = 1"
  using collectResourceExportsByPrefix_permutation
          [of "[\<lparr> ExportingStackId = ''s1'', Name = ''aser:orders:createOrder:function:arn'', Value = ''arn:fn'' \<rparr>,
                \<lparr> ExportingStackId = ''s2'', Name = ''aser:orders:createOrder:function:arn'', Value = ''arn:other'' \<rparr>]"
              "''aser''"]
        collectResourceExportsByPrefix_permutation
          [of "[\<lparr> ExportingStackId = ''s1'', Name = ''aser:orders:createOrder:function:arn'', Value = ''arn:fn'' \<rparr>,
                \<lparr> ExportingStackId = ''s1'', Name = ''aser:orders:createOrder:function:description'', Value = ''creates an order'' \<rparr>]"
              "''aser''"
              "[\<lparr> ExportingStackId = ''s1'', Name = ''aser:orders:createOrder:function:description'', Value = ''creates an order'' \<rparr>,
                \<lparr> ExportingStackId = ''s1'', Name = ''aser:orders:createOrder:function:arn'', Value = ''arn:fn'' \<rparr>]"]
  by (simp add: example_exports)

end
